theory Spec2Isabelle
  imports Main "HOL-Library.AList"
begin

section \<open>JavaScript strings and numbers\<close>

text \<open>
  A JavaScript string is a sequence of UTF-16 code units. The regular expressions of
  the library carry no \<open>u\<close> flag, so they see code units; the \<open>for ... of\<close> loops over
  accidentals see code points (a high surrogate followed by a low one is one step).
  ASCII text is written \<open>js ''...''\<close>; the musical signs are named constants.
\<close>

type_synonym jschar = nat
type_synonym jsstring = "jschar list"

definition js :: "string \<Rightarrow> jsstring" where
  "js s = map of_char s"

definition sharp_sign :: jschar where
  "sharp_sign = 0x266F"

definition flat_sign :: jschar where
  "flat_sign = 0x266D"

text \<open>The double sharp U+1D12A and the double flat U+1D12B are surrogate pairs.\<close>

definition surrogate_D834 :: jschar where
  "surrogate_D834 = 0xD834"

definition surrogate_DD2A :: jschar where
  "surrogate_DD2A = 0xDD2A"

definition surrogate_DD2B :: jschar where
  "surrogate_DD2B = 0xDD2B"

definition double_sharp :: jsstring where
  "double_sharp = [surrogate_D834, surrogate_DD2A]"

definition double_flat :: jsstring where
  "double_flat = [surrogate_D834, surrogate_DD2B]"

definition degree_sign :: jschar where
  "degree_sign = 0xB0"

definition o_slash :: jschar where
  "o_slash = 0xF8"

definition O_slash :: jschar where
  "O_slash = 0xD8"

text \<open>
  Numbers. Every number the library computes is an integer or \<open>NaN\<close> (adding the
  \<open>undefined\<close> of a failed table lookup gives \<open>NaN\<close>). Integers are modelled by \<open>int\<close>,
  which agrees with the doubles of JavaScript below \<open>2 ^ 53\<close> in absolute value.
\<close>

datatype jsnum = Num int | NaN

fun num_add :: "jsnum \<Rightarrow> jsnum \<Rightarrow> jsnum" where
  "num_add (Num a) (Num b) = Num (a + b)"
| "num_add _ _ = NaN"

fun num_sub :: "jsnum \<Rightarrow> jsnum \<Rightarrow> jsnum" where
  "num_sub (Num a) (Num b) = Num (a - b)"
| "num_sub _ _ = NaN"

text \<open>\<open>p += table[c]\<close>, where the lookup may be \<open>undefined\<close>.\<close>

fun num_add_lookup :: "jsnum \<Rightarrow> int option \<Rightarrow> jsnum" where
  "num_add_lookup p (Some v) = num_add p (Num v)"
| "num_add_lookup p None = NaN"

text \<open>The remainder operator \<open>%\<close> takes the sign of the dividend.\<close>

definition js_rem :: "int \<Rightarrow> int \<Rightarrow> int" where
  "js_rem a b = (if a < 0 then - ((- a) mod \<bar>b\<bar>) else a mod \<bar>b\<bar>)"

text \<open>\<open>Number(s)\<close> on a string of decimal digits, and the printing of an integer.\<close>

definition is_digit :: "jschar \<Rightarrow> bool" where
  "is_digit c = (48 \<le> c \<and> c \<le> 57)"

definition Number_of_digits :: "jsstring \<Rightarrow> int" where
  "Number_of_digits ds = foldl (\<lambda>a d. 10 * a + int (d - 48)) 0 ds"

fun showNat :: "nat \<Rightarrow> jsstring" where
  "showNat n = (if n < 10 then [48 + n] else showNat (n div 10) @ [48 + n mod 10])"

declare showNat.simps [simp del]

fun Number_toString :: "jsnum \<Rightarrow> jsstring" where
  "Number_toString NaN = js ''NaN''"
| "Number_toString (Num i) = (if i < 0 then js ''-'' @ showNat (nat (- i)) else showNat (nat i))"

text \<open>
  \<open>toUpperCase\<close> and \<open>toLowerCase\<close>. The library applies them only to text that a
  regular expression has matched against letters, accidentals and roman numerals; on
  those characters only the ASCII letters change.
\<close>

definition upper_char :: "jschar \<Rightarrow> jschar" where
  "upper_char c = (if 97 \<le> c \<and> c \<le> 122 then c - 32 else c)"

definition lower_char :: "jschar \<Rightarrow> jschar" where
  "lower_char c = (if 65 \<le> c \<and> c \<le> 90 then c + 32 else c)"

definition toUpperCase :: "jsstring \<Rightarrow> jsstring" where
  "toUpperCase s = map upper_char s"

definition toLowerCase :: "jsstring \<Rightarrow> jsstring" where
  "toLowerCase s = map lower_char s"

text \<open>\<open>Array.prototype.indexOf\<close>: the first index of an element, or \<open>-1\<close>.\<close>

fun indexOf :: "'a list \<Rightarrow> 'a \<Rightarrow> int" where
  "indexOf [] x = - 1"
| "indexOf (y # ys) x =
     (if y = x then 0 else (let r = indexOf ys x in if r < 0 then - 1 else r + 1))"

text \<open>The string iterator: code points, a lone surrogate being a step of its own.\<close>

definition is_high_surrogate :: "jschar \<Rightarrow> bool" where
  "is_high_surrogate c = (0xD800 \<le> c \<and> c \<le> 0xDBFF)"

definition is_low_surrogate :: "jschar \<Rightarrow> bool" where
  "is_low_surrogate c = (0xDC00 \<le> c \<and> c \<le> 0xDFFF)"

fun codePoints :: "jsstring \<Rightarrow> jsstring list" where
  "codePoints [] = []"
| "codePoints [c] = [[c]]"
| "codePoints (c # d # cs) =
     (if is_high_surrogate c \<and> is_low_surrogate d then [c, d] # codePoints cs
      else [c] # codePoints (d # cs))"

section \<open>Errors\<close>

text \<open>Every \<open>throw\<close> of the source is a constructor; it carries what the message names.\<close>

datatype error =
    NotScientificNotation jsstring
  | NotHelmholtzNotation jsstring
  | NotPitchClassName jsstring
  | NotChordName jsstring
  | UnknownInversion jsstring
  | NotRomanNumeral jsstring
  | RequiresTonic
  | NotAChordName
  | MixedCase jsstring
  | UnknownModifier jsstring
  | NoScaleNamed jsstring
  | UnknownChordName jsstring
  | NoMatchingChordClass "jsnum list"
  | TypeError

section \<open>The notation codec (notation.ts, accidentals.ts)\<close>

definition AccidentalValues :: "jsstring \<Rightarrow> int option" where
  "AccidentalValues = map_of
     [(js ''#'', 1), ([sharp_sign], 1), (js ''b'', - 1), ([flat_sign], - 1),
      (double_sharp, 2), (double_flat, - 2)]"

definition SharpNoteNames :: "jsstring list" where
  "SharpNoteNames =
     [js ''C'', js ''C'' @ [sharp_sign], js ''D'', js ''D'' @ [sharp_sign], js ''E'',
      js ''F'', js ''F'' @ [sharp_sign], js ''G'', js ''G'' @ [sharp_sign], js ''A'',
      js ''A'' @ [sharp_sign], js ''B'']"

definition FlatNoteNames :: "jsstring list" where
  "FlatNoteNames =
     [js ''C'', js ''D'' @ [flat_sign], js ''D'', js ''E'' @ [flat_sign], js ''E'',
      js ''F'', js ''G'' @ [flat_sign], js ''G'', js ''A'' @ [flat_sign], js ''A'',
      js ''B'' @ [flat_sign], js ''B'']"

definition NoteNames :: "jsstring list" where
  "NoteNames = SharpNoteNames"

text \<open>
  The character classes of the three pitch grammars. All three expressions carry the
  \<open>i\<close> flag, so \<open>[A-G]\<close> also takes \<open>a\<close> to \<open>g\<close>, and the accidental class, which holds
  \<open>b\<close>, also takes \<open>B\<close>. Without the \<open>u\<close> flag the two surrogate pairs of the class are
  three single code units.
\<close>

definition is_note_letter :: "jschar \<Rightarrow> bool" where
  "is_note_letter c = ((65 \<le> c \<and> c \<le> 71) \<or> (97 \<le> c \<and> c \<le> 103))"

definition is_accidental_unit :: "jschar \<Rightarrow> bool" where
  "is_accidental_unit c =
     (c \<in> set (js ''#bB'' @ [sharp_sign, flat_sign, surrogate_D834, surrogate_DD2A, surrogate_DD2B]))"

definition is_comma :: "jschar \<Rightarrow> bool" where
  "is_comma c = (c = 44)"

definition is_apostrophe :: "jschar \<Rightarrow> bool" where
  "is_apostrophe c = (c = 39)"

text \<open>\<open>for (const c of accidentals) pitch += AccidentalValues[c]\<close>\<close>

definition add_accidentals :: "jsnum \<Rightarrow> jsstring \<Rightarrow> jsnum" where
  "add_accidentals pitch accidentals =
     fold (\<lambda>c p. num_add_lookup p (AccidentalValues c)) (codePoints accidentals) pitch"

text \<open>
  \<open>/^([A-G])([#...]*)(\d+)$/i\<close>. The classes of the three parts are disjoint, so the
  greedy match is the only one: backtracking never finds another.
\<close>

definition match_scientific :: "jsstring \<Rightarrow> (jsstring \<times> jsstring \<times> jsstring) option" where
  "match_scientific name =
     (case name of
        [] \<Rightarrow> None
      | c # rest \<Rightarrow>
          (let accidentals = takeWhile is_accidental_unit rest;
               octave = dropWhile is_accidental_unit rest
           in if is_note_letter c \<and> octave \<noteq> [] \<and> list_all is_digit octave
              then Some ([c], accidentals, octave) else None))"

definition pitchFromScientificNotation :: "jsstring \<Rightarrow> error + jsnum" where
  "pitchFromScientificNotation name =
     (case match_scientific name of
        None \<Rightarrow> Inl (NotScientificNotation name)
      | Some (naturalName, accidentals, octave) \<Rightarrow>
          Inr (add_accidentals
                 (Num (indexOf SharpNoteNames (toUpperCase naturalName)
                       + 12 * (1 + Number_of_digits octave)))
                 accidentals))"

text \<open>\<open>/^([A-G])([#...]*)$/i\<close>\<close>

definition match_pitch_class :: "jsstring \<Rightarrow> (jsstring \<times> jsstring) option" where
  "match_pitch_class name =
     (case name of
        [] \<Rightarrow> None
      | c # rest \<Rightarrow>
          (if is_note_letter c \<and> list_all is_accidental_unit rest
           then Some ([c], rest) else None))"

definition normalizePitchClass :: "jsnum \<Rightarrow> jsnum" where
  "normalizePitchClass pitchClass =
     (case pitchClass of NaN \<Rightarrow> NaN | Num x \<Rightarrow> Num (js_rem (js_rem x 12 + 12) 12))"

definition parsePitchClass :: "jsstring \<Rightarrow> bool \<Rightarrow> error + jsnum" where
  "parsePitchClass name normal =
     (case match_pitch_class name of
        None \<Rightarrow> Inl (NotPitchClassName name)
      | Some (naturalName, accidentals) \<Rightarrow>
          (let pitch = add_accidentals
                         (Num (indexOf SharpNoteNames (toUpperCase naturalName))) accidentals
           in Inr (if normal then normalizePitchClass pitch else pitch)))"

text \<open>\<open>/^([A-G][#...]*)(,*)('*)$/i\<close>\<close>

definition match_helmholtz :: "jsstring \<Rightarrow> (jsstring \<times> jsstring \<times> jsstring) option" where
  "match_helmholtz name =
     (case name of
        [] \<Rightarrow> None
      | c # rest \<Rightarrow>
          (let accidentals = takeWhile is_accidental_unit rest;
               rest1 = dropWhile is_accidental_unit rest;
               commas = takeWhile is_comma rest1;
               apostrophes = dropWhile is_comma rest1
           in if is_note_letter c \<and> list_all is_apostrophe apostrophes
              then Some (c # accidentals, commas, apostrophes) else None))"

text \<open>\<open>Number(b)\<close> for a boolean.\<close>

definition Number_of_bool :: "bool \<Rightarrow> int" where
  "Number_of_bool b = (if b then 1 else 0)"

definition pitchFromHelmholtzNotation :: "jsstring \<Rightarrow> error + jsnum" where
  "pitchFromHelmholtzNotation name =
     (case match_helmholtz name of
        None \<Rightarrow> Inl (NotHelmholtzNotation name)
      | Some (pitchClassName, commas, apostrophes) \<Rightarrow>
          (case parsePitchClass pitchClassName False of
             Inl e \<Rightarrow> Inl e
           | Inr pitchClassNumber \<Rightarrow>
               (let octave = 4 - Number_of_bool (pitchClassName = toUpperCase pitchClassName)
                               - int (length commas) + int (length apostrophes)
                in Inr (num_add (Num (12 * octave)) pitchClassNumber))))"

text \<open>\<open>NoteNames[pitchClass]\<close>: \<open>undefined\<close> outside the table.\<close>

definition getPitchClassName :: "jsnum \<Rightarrow> jsstring option" where
  "getPitchClassName pitchClass =
     (case pitchClass of
        NaN \<Rightarrow> None
      | Num i \<Rightarrow> (if 0 \<le> i \<and> i < int (length NoteNames) then Some (NoteNames ! nat i) else None))"

text \<open>\<open>Math.floor(midiNumber / 12) - 1\<close>\<close>

definition octave_of :: "jsnum \<Rightarrow> jsnum" where
  "octave_of midiNumber = (case midiNumber of NaN \<Rightarrow> NaN | Num n \<Rightarrow> Num (n div 12 - 1))"

text \<open>
  \<open>getPitchClassName(normalizePitchClass(midiNumber)) + octave\<close>. The name is \<open>undefined\<close>
  only when the number is \<open>NaN\<close>; then the octave is \<open>NaN\<close> too and the sum is the number
  \<open>NaN\<close>, which stands here as the text it prints as.
\<close>

definition pitchToScientificNotation :: "jsnum \<Rightarrow> jsstring" where
  "pitchToScientificNotation midiNumber =
     (case getPitchClassName (normalizePitchClass midiNumber) of
        None \<Rightarrow> js ''NaN''
      | Some s \<Rightarrow> s @ Number_toString (octave_of midiNumber))"

definition pitchToPitchClass :: "jsnum \<Rightarrow> jsnum" where
  "pitchToPitchClass = normalizePitchClass"

section \<open>Interval\<close>

text \<open>
  Modelled from the spec: the class \<open>Interval\<close> (Interval.ts is not among the sources).
  An interval is its semitone count, which may be negative or exceed 11.
\<close>

datatype interval = Interval (semitones: jsnum)

text \<open>
  Modelled from the spec: \<open>Interval.fromSemitones\<close> (Interval.ts is not among the
  sources). It always succeeds, and \<open>fromSemitones(n).semitones = n\<close>.
\<close>

definition Interval_fromSemitones :: "jsnum \<Rightarrow> interval" where
  "Interval_fromSemitones n = Interval n"

section \<open>Pitch (Pitch.ts)\<close>

record pitch =
  midiNumber :: jsnum
  pitch_name :: jsstring

text \<open>The constructor: \<open>this.name = name || pitchToScientificNotation(midiNumber)\<close>.\<close>

definition Pitch_new :: "jsnum \<Rightarrow> jsstring option \<Rightarrow> pitch" where
  "Pitch_new m name_arg =
     \<lparr> midiNumber = m,
       pitch_name = (case name_arg of
                       None \<Rightarrow> pitchToScientificNotation m
                     | Some n \<Rightarrow> (if n = [] then pitchToScientificNotation m else n)) \<rparr>"

definition Pitch_fromString :: "jsstring \<Rightarrow> error + pitch" where
  "Pitch_fromString name =
     (case (if list_ex is_digit name then pitchFromScientificNotation name
            else pitchFromHelmholtzNotation name) of
        Inl e \<Rightarrow> Inl e
      | Inr m \<Rightarrow> Inr (Pitch_new m (Some name)))"

definition Pitch_toString :: "pitch \<Rightarrow> jsstring" where
  "Pitch_toString p = pitch_name p"

definition Pitch_transposeBy :: "pitch \<Rightarrow> interval \<Rightarrow> pitch" where
  "Pitch_transposeBy p i = Pitch_new (num_add (midiNumber p) (semitones i)) None"

section \<open>PitchClass and PitchLike\<close>

text \<open>
  Modelled from the spec: the class \<open>PitchClass\<close> (the sources import it from
  \<open>./PitchClass\<close> but hold only an older namespace of that name). A pitch class is an
  integer normalized into \<open>[0, 12)\<close>.
\<close>

datatype pitch_class = PitchClass (pc_semitones: jsnum)

text \<open>
  Modelled from the spec: \<open>PitchClass.fromSemitones\<close> (class not among the sources); the
  value is normalized.
\<close>

definition PitchClass_fromSemitones :: "jsnum \<Rightarrow> pitch_class" where
  "PitchClass_fromSemitones n = PitchClass (normalizePitchClass n)"

text \<open>
  Modelled from the spec: \<open>PitchClass.fromString\<close> (class not among the sources), the
  pitch-class-only parsing with a normalized result.
\<close>

definition PitchClass_fromString :: "jsstring \<Rightarrow> error + pitch_class" where
  "PitchClass_fromString name =
     (case parsePitchClass name True of
        Inl e \<Rightarrow> Inl e
      | Inr n \<Rightarrow> Inr (PitchClass_fromSemitones n))"

text \<open>
  Modelled from the spec: \<open>PitchClass.toString\<close> (class not among the sources), the entry
  of the sharp-name table; outside the table the lookup is \<open>undefined\<close>.
\<close>

definition PitchClass_toString :: "pitch_class \<Rightarrow> jsstring" where
  "PitchClass_toString pc =
     (case getPitchClassName (pc_semitones pc) of None \<Rightarrow> js ''undefined'' | Some s \<Rightarrow> s)"

text \<open>
  Modelled from the spec: \<open>PitchClass.transposeBy\<close> (class not among the sources); the
  sum is a pitch class, so it is normalized again.
\<close>

definition PitchClass_transposeBy :: "pitch_class \<Rightarrow> interval \<Rightarrow> pitch_class" where
  "PitchClass_transposeBy pc i =
     PitchClass_fromSemitones (num_add (pc_semitones pc) (semitones i))"

text \<open>
  Modelled from the spec: the type \<open>PitchLike\<close> (PitchLike.ts is not among the sources),
  a capability with exactly two variants, \<open>Pitch\<close> and \<open>PitchClass\<close>.
\<close>

datatype pitch_like = APitch pitch | APitchClass pitch_class

text \<open>
  Modelled from the spec: \<open>asPitchLike\<close> (PitchLike.ts is not among the sources). A
  string with an octave digit is a pitch, one without is a pitch class: the tonic \<open>E\<close>
  of scenario 5 prints as \<open>E\<close> and its degrees print without octave.
\<close>

definition asPitchLike :: "jsstring \<Rightarrow> error + pitch_like" where
  "asPitchLike name =
     (if list_ex is_digit name
      then (case Pitch_fromString name of Inl e \<Rightarrow> Inl e | Inr p \<Rightarrow> Inr (APitch p))
      else (case PitchClass_fromString name of Inl e \<Rightarrow> Inl e | Inr c \<Rightarrow> Inr (APitchClass c)))"

text \<open>The methods of the capability, by variant.\<close>

fun PitchLike_toString :: "pitch_like \<Rightarrow> jsstring" where
  "PitchLike_toString (APitch p) = Pitch_toString p"
| "PitchLike_toString (APitchClass c) = PitchClass_toString c"

fun PitchLike_transposeBy :: "pitch_like \<Rightarrow> interval \<Rightarrow> pitch_like" where
  "PitchLike_transposeBy (APitch p) i = APitch (Pitch_transposeBy p i)"
| "PitchLike_transposeBy (APitchClass c) i = APitchClass (PitchClass_transposeBy c i)"

fun PitchLike_numeric :: "pitch_like \<Rightarrow> jsnum" where
  "PitchLike_numeric (APitch p) = midiNumber p"
| "PitchLike_numeric (APitchClass c) = pc_semitones c"

text \<open>
  Modelled from the spec: \<open>Interval.between\<close> (Interval.ts is not among the sources),
  the signed difference \<open>b - a\<close> of the numeric values, from the root to the other.
\<close>

definition Interval_between :: "pitch_like \<Rightarrow> pitch_like \<Rightarrow> interval" where
  "Interval_between a b = Interval (num_sub (PitchLike_numeric b) (PitchLike_numeric a))"

section \<open>Chord classes and their registry (Chord.ts)\<close>

text \<open>
  Modelled from the spec: the class \<open>ChordClass\<close> (ChordClass.ts is not among the
  sources). Its fields are those the table of Chord.ts passes to the constructor.
\<close>

record chord_class =
  cc_name :: jsstring
  cc_fullName :: jsstring
  cc_abbrs :: "jsstring list"
  cc_intervals :: "interval list"

text \<open>
  \<open>String.prototype.replace\<close> with a string pattern replaces the first occurrence;
  \<open>/Major(?!$)/\<close> is the first occurrence that does not end the string.
\<close>

fun replace_first :: "jsstring \<Rightarrow> jsstring \<Rightarrow> jsstring \<Rightarrow> jsstring" where
  "replace_first pat rep [] = (if pat = [] then rep else [])"
| "replace_first pat rep (c # cs) =
     (if take (length pat) (c # cs) = pat then rep @ drop (length pat) (c # cs)
      else c # replace_first pat rep cs)"

fun replace_first_inner :: "jsstring \<Rightarrow> jsstring \<Rightarrow> jsstring \<Rightarrow> jsstring" where
  "replace_first_inner pat rep [] = []"
| "replace_first_inner pat rep (c # cs) =
     (if take (length pat) (c # cs) = pat \<and> drop (length pat) (c # cs) \<noteq> []
      then rep @ drop (length pat) (c # cs)
      else c # replace_first_inner pat rep cs)"

text \<open>
  The interval letters of the table: \<open>t\<close> is ten, \<open>e\<close> eleven, a digit its value
  (\<open>Number(c)\<close>; the table holds no other character).
\<close>

definition tone_of_char :: "jschar \<Rightarrow> jsnum" where
  "tone_of_char c =
     (if [c] = js ''t'' then Num 10 else if [c] = js ''e'' then Num 11
      else if is_digit c then Num (int (c - 48)) else NaN)"

definition make_chord_class :: "jsstring \<times> jsstring list \<times> jsstring \<Rightarrow> chord_class" where
  "make_chord_class = (\<lambda>(name, abbrs, intervals).
     \<lparr> cc_name = replace_first (js ''Diminished'') (js ''Dim'')
                   (replace_first (js ''Dominant'') (js ''Dom'')
                     (replace_first_inner (js ''Minor'') (js ''Min'')
                       (replace_first_inner (js ''Major'') (js ''Maj'') name))),
       cc_fullName = name,
       cc_abbrs = abbrs,
       cc_intervals = map (\<lambda>c. Interval_fromSemitones (tone_of_char c)) intervals \<rparr>)"

definition chordClassTable :: "(jsstring \<times> jsstring list \<times> jsstring) list" where
  "chordClassTable =
     [(js ''Major'', [[], js ''M''], js ''047''),
      (js ''Minor'', [js ''m''], js ''037''),
      (js ''Augmented'', [js ''+'', js ''aug''], js ''048''),
      (js ''Diminished'', [[degree_sign], js ''dim''], js ''036''),
      (js ''Sus2'', [js ''sus2''], js ''027''),
      (js ''Sus4'', [js ''sus4''], js ''057''),
      (js ''Dominant 7th'', [js ''7'', js ''dom7''], js ''047t''),
      (js ''Augmented 7th'', [js ''+7'', js ''7aug''], js ''048t''),
      (js ''Diminished 7th'', [degree_sign # js ''7'', js ''dim7''], js ''0369''),
      (js ''Major 7th'', [js ''maj7''], js ''047e''),
      (js ''Minor 7th'', [js ''min7''], js ''037t''),
      (js ''Dominant 7b5'', [js ''7b5''], js ''046t''),
      (js ''Minor 7th b5'', [[o_slash], [O_slash], js ''m7b5''], js ''036t''),
      (js ''Diminished Maj 7th'', [degree_sign # js ''Maj7''], js ''036e''),
      (js ''Minor-Major 7th'', [js ''min/maj7'', js ''min(maj7)''], js ''037e''),
      (js ''6th'', [js ''6'', js ''M6'', js ''M6'', js ''maj6''], js ''0479''),
      (js ''Minor 6th'', [js ''m6'', js ''min6''], js ''0379'')]"

definition chordClassArray :: "chord_class list" where
  "chordClassArray = map make_chord_class chordClassTable"

text \<open>\<open>Array.prototype.join\<close>\<close>

fun join :: "jsstring \<Rightarrow> jsstring list \<Rightarrow> jsstring" where
  "join sep [] = []"
| "join sep [x] = x"
| "join sep (x # y # ys) = x @ sep @ join sep (y # ys)"

text \<open>
  \<open>ChordClassAccessor.addChord\<close>. The registry \<open>ChordClass.chordMap\<close> is a \<open>Map\<close> from
  strings to chord classes (declared in ChordClass.ts, taken to be empty before the
  table is added); a key that is the empty string is falsy and is skipped.
\<close>

definition pitchKey :: "chord_class \<Rightarrow> jsstring" where
  "pitchKey chordClass =
     join (js '','') (map (\<lambda>i. Number_toString (semitones i)) (cc_intervals chordClass))"

definition chord_keys :: "chord_class \<Rightarrow> jsstring list" where
  "chord_keys chordClass =
     [cc_name chordClass, cc_fullName chordClass] @ cc_abbrs chordClass @ [pitchKey chordClass]"

definition addChord ::
  "chord_class \<Rightarrow> (jsstring \<rightharpoonup> chord_class) \<Rightarrow> (jsstring \<rightharpoonup> chord_class)" where
  "addChord chordClass m =
     fold (\<lambda>key m'. if key = [] then m' else m'(key \<mapsto> chordClass)) (chord_keys chordClass) m"

definition chordMap :: "jsstring \<rightharpoonup> chord_class" where
  "chordMap = fold addChord chordClassArray Map.empty"

text \<open>
  Modelled from the spec: \<open>ChordClass.fromString\<close> (ChordClass.ts is not among the
  sources), the exact lookup in the registry, failing with an unknown chord name.
\<close>

definition ChordClass_fromString :: "jsstring \<Rightarrow> error + chord_class" where
  "ChordClass_fromString name =
     (case chordMap name of None \<Rightarrow> Inl (UnknownChordName name) | Some c \<Rightarrow> Inr c)"

text \<open>
  Modelled from the spec: the fingerprint of \<open>ChordClass.fromIntervals\<close> (ChordClass.ts
  is not among the sources): the semitones normalized and sorted, in the encoding of
  the registration (joined with commas). A \<open>NaN\<close> sorts last; it prints as no key.
\<close>

definition sort_rank :: "jsnum \<Rightarrow> int" where
  "sort_rank n = (case n of Num i \<Rightarrow> i | NaN \<Rightarrow> 12)"

definition fingerprint :: "interval list \<Rightarrow> jsstring" where
  "fingerprint ivs =
     join (js '','')
       (map Number_toString
         (sort_key sort_rank (map (\<lambda>i. normalizePitchClass (semitones i)) ivs)))"

text \<open>
  Modelled from the spec: \<open>ChordClass.fromIntervals\<close> (ChordClass.ts is not among the
  sources), the lookup of the fingerprint, failing when no class matches exactly.
\<close>

definition ChordClass_fromIntervals :: "interval list \<Rightarrow> error + chord_class" where
  "ChordClass_fromIntervals ivs =
     (case chordMap (fingerprint ivs) of
        None \<Rightarrow> Inl (NoMatchingChordClass (map semitones ivs))
      | Some c \<Rightarrow> Inr c)"

section \<open>Chord (Chord.ts)\<close>

text \<open>
  The root is optional in the model because the roman-numeral resolver can pass an
  \<open>undefined\<close> array element; the constructor then fails with a \<open>TypeError\<close> as soon as
  it calls a method of the root.
\<close>

record chord =
  chordClass :: chord_class
  root :: "pitch_like option"
  inversion :: int
  abbr :: "jsstring option"
  abbrs :: "jsstring list"
  intervals :: "interval list"
  pitches :: "pitch_like list"

text \<open>
  Modelled from the spec: \<open>rotateArray\<close> (utils.ts is not among the sources), the
  cyclic rotation to the left by \<open>k\<close>, returning a new array.
\<close>

definition rotateArray :: "'a list \<Rightarrow> int \<Rightarrow> 'a list" where
  "rotateArray xs k = (if xs = [] then [] else rotate (nat (k mod int (length xs))) xs)"

text \<open>The whitespace and line terminators of regular expressions.\<close>

definition is_space :: "jschar \<Rightarrow> bool" where
  "is_space c =
     (c \<in> set [9, 10, 11, 12, 13, 32, 0xA0, 0x1680, 0x2028, 0x2029, 0x202F, 0x205F, 0x3000, 0xFEFF]
      \<or> (0x2000 \<le> c \<and> c \<le> 0x200A))"

definition is_line_terminator :: "jschar \<Rightarrow> bool" where
  "is_line_terminator c = (c \<in> set [10, 13, 0x2028, 0x2029])"

definition no_line_terminator :: "jsstring \<Rightarrow> bool" where
  "no_line_terminator s = list_all (\<lambda>c. \<not> is_line_terminator c) s"

text \<open>\<open>s.replace(/\s+$/, '')\<close>\<close>

definition trim_end :: "jsstring \<Rightarrow> jsstring" where
  "trim_end s = rev (dropWhile is_space (rev s))"

definition Chord_new :: "chord_class \<Rightarrow> pitch_like option \<Rightarrow> int \<Rightarrow> error + chord" where
  "Chord_new cc r k =
     (case r of
        None \<Rightarrow>
          (if cc_abbrs cc = [] \<and> cc_intervals cc = []
           then Inr \<lparr> chordClass = cc, root = None, inversion = k, abbr = None,
                      abbrs = [], intervals = [], pitches = [] \<rparr>
           else Inl TypeError)
      | Some rt \<Rightarrow>
          (let abbrs0 = map (\<lambda>a. trim_end (PitchLike_toString rt @ js '' '' @ a)) (cc_abbrs cc);
               intervals0 = cc_intervals cc;
               pitches0 = map (\<lambda>i. PitchLike_transposeBy rt i) (cc_intervals cc)
           in Inr \<lparr> chordClass = cc, root = Some rt, inversion = k,
                     abbr = (case abbrs0 of [] \<Rightarrow> None | a # _ \<Rightarrow> Some a),
                     abbrs = abbrs0,
                     intervals = (if k = 0 then intervals0 else rotateArray intervals0 k),
                     pitches = (if k = 0 then pitches0 else rotateArray pitches0 k) \<rparr>))"

text \<open>The getter \<open>name\<close>.\<close>

definition Chord_name :: "chord \<Rightarrow> error + jsstring" where
  "Chord_name c =
     (case root c of
        None \<Rightarrow> Inl TypeError
      | Some rt \<Rightarrow> Inr (PitchLike_toString rt @ js '' '' @ cc_name (chordClass c)))"

definition inversionNames :: "jsstring list" where
  "inversionNames = [js ''a'', js ''c'', js ''d'']"

datatype inversion_key = KeyNumber int | KeyString jsstring

definition Chord_invert :: "chord \<Rightarrow> inversion_key \<Rightarrow> error + chord" where
  "Chord_invert c inversionKey =
     (case inversionKey of
        KeyString s \<Rightarrow>
          (let ix = indexOf inversionNames s
           in if ix < 0 then Inl (UnknownInversion s)
              else Chord_new (chordClass c) (root c) (1 + ix))
      | KeyNumber n \<Rightarrow> Chord_new (chordClass c) (root c) n)"

text \<open>
  Modelled from the spec: \<open>ChordClass.at\<close> (ChordClass.ts is not among the sources)
  binds the class to a root, the inversion defaulting to 0.
\<close>

definition ChordClass_at :: "chord_class \<Rightarrow> pitch_like option \<Rightarrow> error + chord" where
  "ChordClass_at cc r = Chord_new cc r 0"

text \<open>
  \<open>chordNameRegex = /^([a-gA-G],*'*[#...]*(?:\d*))\s*(.*)$/\<close>, without the \<open>i\<close> flag.
  Every part but the letter may be empty and the last group takes the rest, so the
  greedy match succeeds exactly when the rest holds no line terminator; giving a
  character back only lengthens that rest.
\<close>

definition is_accidental_unit_cs :: "jschar \<Rightarrow> bool" where
  "is_accidental_unit_cs c =
     (c \<in> set (js ''#b'' @ [sharp_sign, flat_sign, surrogate_D834, surrogate_DD2A, surrogate_DD2B]))"

definition match_chord_name :: "jsstring \<Rightarrow> (jsstring \<times> jsstring) option" where
  "match_chord_name name =
     (case name of
        [] \<Rightarrow> None
      | c # r0 \<Rightarrow>
          (let commas = takeWhile is_comma r0; r1 = dropWhile is_comma r0;
               apostrophes = takeWhile is_apostrophe r1; r2 = dropWhile is_apostrophe r1;
               accidentals = takeWhile is_accidental_unit_cs r2;
               r3 = dropWhile is_accidental_unit_cs r2;
               digits = takeWhile is_digit r3; r4 = dropWhile is_digit r3;
               className = dropWhile is_space r4
           in if is_note_letter c \<and> no_line_terminator className
              then Some (c # commas @ apostrophes @ accidentals @ digits, className)
              else None))"

datatype chord_or_class = AChord chord | AChordClass chord_class

definition Chord_fromString :: "jsstring \<Rightarrow> error + chord_or_class" where
  "Chord_fromString name =
     (case match_chord_name name of
        None \<Rightarrow> Inl (NotChordName name)
      | Some (rootName, className) \<Rightarrow>
          (case ChordClass_fromString (if className = [] then js ''Major'' else className) of
             Inl e \<Rightarrow> Inl e
           | Inr cc \<Rightarrow>
               (if rootName = [] then Inr (AChordClass cc)
                else (case Pitch_fromString rootName of
                        Inl e \<Rightarrow> Inl e
                      | Inr p \<Rightarrow>
                          (case ChordClass_at cc (Some (APitch p)) of
                             Inl e \<Rightarrow> Inl e
                           | Inr ch \<Rightarrow> Inr (AChord ch))))))"

text \<open>\<open>Chord.fromPitches\<close>: the first pitch is the root.\<close>

definition Chord_fromPitches :: "pitch_like list \<Rightarrow> error + chord" where
  "Chord_fromPitches ps =
     (case ps of
        [] \<Rightarrow> (case ChordClass_fromIntervals [] of
                 Inl e \<Rightarrow> Inl e
               | Inr cc \<Rightarrow> ChordClass_at cc None)
      | r # _ \<Rightarrow>
          (case ChordClass_fromIntervals (map (\<lambda>p. Interval_between r p) ps) of
             Inl e \<Rightarrow> Inl e
           | Inr cc \<Rightarrow> ChordClass_at cc (Some r)))"

section \<open>Scales and keys (Scale.ts)\<close>

text \<open>
  Modelled from the spec: \<open>PitchClassParser.normalize\<close> (\<open>./internal/pitchClassParser\<close>
  is not among the sources), the normalization mod 12 into \<open>[0, 12)\<close>; it is written as
  the two copies of \<open>normalize\<close> in the sources are (\<open>PitchClass.normalize\<close> and
  \<open>normalizePitchClass\<close>): \<open>((pc % 12) + 12) % 12\<close>, taken here on integers.
\<close>

definition PitchClassParser_normalize :: "int \<Rightarrow> int" where
  "PitchClassParser_normalize pc = js_rem (js_rem pc 12 + 12) 12"

text \<open>
  \<open>rotatePitchClasses\<close>. The parameter is reassigned to the rotated array before the
  \<open>map\<close>, so \<open>pitchClasses[0]\<close> in the callback is the new first element. On an empty
  array every slice is empty.
\<close>

definition rotatePitchClasses :: "int list \<Rightarrow> nat \<Rightarrow> int list" where
  "rotatePitchClasses pitchClasses i =
     (if pitchClasses = [] then []
      else (let j = i mod length pitchClasses;
                rotated = drop j pitchClasses @ take j pitchClasses
            in map (\<lambda>pc. PitchClassParser_normalize (pc - hd rotated)) rotated))"

text \<open>
  A scale object points to its parent and the parent holds its modes, so the objects
  are cyclic. Each object carries the number of its allocation as its identity; a
  parent is referred to by that number, the modes are held as values.
\<close>

datatype parent_arg = ParentNull | ParentName jsstring | ParentObject nat

record scale_options =
  opt_name :: jsstring
  opt_pitchClasses :: "int list"
  opt_parent :: parent_arg
  opt_modeNames :: "jsstring list"

datatype scale =
  Scale (scale_id: nat) (scale_name: jsstring) (scale_pitchClasses: "int list")
    (scale_parent: "nat option") (scale_intervals: "interval list") (scale_modes: "scale list")

type_synonym scale_instances = "(jsstring \<times> scale) list"

definition Scale_fromString :: "scale_instances \<Rightarrow> jsstring \<Rightarrow> error + scale" where
  "Scale_fromString instances name =
     (case map_of instances name of None \<Rightarrow> Inl (NoScaleNamed name) | Some s \<Rightarrow> Inr s)"

definition Scale_addScale :: "scale \<Rightarrow> scale_instances \<Rightarrow> scale_instances" where
  "Scale_addScale s instances = AList.update (scale_name s) s instances"

text \<open>
  The constructor of \<open>GenericScale\<close>. The object is allocated first (\<open>next\<close> is its
  identity), then each mode by a nested \<open>new Scale\<close> whose options give the object as
  parent and no mode names, so a mode has no modes of its own and its construction
  looks nothing up.
\<close>

definition intervals_of :: "int list \<Rightarrow> interval list" where
  "intervals_of pitchClasses = map (\<lambda>s. Interval_fromSemitones (Num s)) pitchClasses"

definition new_mode :: "nat \<Rightarrow> int list \<Rightarrow> nat \<times> jsstring \<Rightarrow> scale" where
  "new_mode this pitchClasses = (\<lambda>(i, modeName).
     (let pcs = rotatePitchClasses pitchClasses i
      in Scale (this + 1 + i) modeName pcs (Some this) (intervals_of pcs) []))"

definition resolve_parent :: "scale_instances \<Rightarrow> parent_arg \<Rightarrow> error + nat option" where
  "resolve_parent instances p =
     (case p of
        ParentNull \<Rightarrow> Inr None
      | ParentObject a \<Rightarrow> Inr (Some a)
      | ParentName n \<Rightarrow>
          (case Scale_fromString instances n of Inl e \<Rightarrow> Inl e | Inr s \<Rightarrow> Inr (Some (scale_id s))))"

definition Scale_new :: "scale_options \<Rightarrow> nat \<Rightarrow> scale_instances \<Rightarrow> error + scale \<times> nat" where
  "Scale_new options next instances =
     (case resolve_parent instances (opt_parent options) of
        Inl e \<Rightarrow> Inl e
      | Inr parent \<Rightarrow>
          Inr (Scale next (opt_name options) (opt_pitchClasses options) parent
                 (intervals_of (opt_pitchClasses options))
                 (map (new_mode next (opt_pitchClasses options))
                    (enumerate 0 (opt_modeNames options))),
               next + 1 + length (opt_modeNames options)))"

definition diatonicMajorScaleName :: jsstring where
  "diatonicMajorScaleName = js ''Diatonic Major''"

definition majorPentatonicScaleName :: jsstring where
  "majorPentatonicScaleName = js ''Major Pentatonic''"

definition defaultScaleName :: jsstring where
  "defaultScaleName = diatonicMajorScaleName"

definition scaleMap :: "scale_options list" where
  "scaleMap =
     [\<lparr> opt_name = diatonicMajorScaleName, opt_pitchClasses = [0, 2, 4, 5, 7, 9, 11],
        opt_parent = ParentNull,
        opt_modeNames = [js ''Ionian'', js ''Dorian'', js ''Phrygian'', js ''Lydian'',
                         js ''Mixolydian'', js ''Aeolian'', js ''Locrian''] \<rparr>,
      \<lparr> opt_name = js ''Natural Minor'', opt_pitchClasses = [0, 2, 3, 5, 7, 8, 10],
        opt_parent = ParentName diatonicMajorScaleName, opt_modeNames = [] \<rparr>,
      \<lparr> opt_name = majorPentatonicScaleName, opt_pitchClasses = [0, 2, 4, 7, 9],
        opt_parent = ParentNull,
        opt_modeNames = [majorPentatonicScaleName, js ''Suspended Pentatonic'', js ''Man Gong'',
                         js ''Ritusen'', js ''Minor Pentatonic''] \<rparr>,
      \<lparr> opt_name = js ''Minor Pentatonic'', opt_pitchClasses = [0, 3, 5, 7, 10],
        opt_parent = ParentName majorPentatonicScaleName, opt_modeNames = [] \<rparr>,
      \<lparr> opt_name = js ''Melodic Minor'', opt_pitchClasses = [0, 2, 3, 5, 7, 9, 11],
        opt_parent = ParentNull,
        opt_modeNames = [js ''Jazz Minor'', js ''Dorian b2'', js ''Lydian Augmented'',
                         js ''Lydian Dominant'', js ''Mixolydian b6'', js ''Semilocrian'',
                         js ''Superlocrian''] \<rparr>,
      \<lparr> opt_name = js ''Harmonic Minor'', opt_pitchClasses = [0, 2, 3, 5, 7, 8, 11],
        opt_parent = ParentNull,
        opt_modeNames = [js ''Harmonic Minor'', js ''Locrian #6'', js ''Ionian Augmented'',
                         js ''Romanian'', js ''Phrygian Dominant'', js ''Lydian #2'',
                         js ''Ultralocrian''] \<rparr>,
      \<lparr> opt_name = js ''Blues'', opt_pitchClasses = [0, 3, 5, 6, 7, 10],
        opt_parent = ParentNull, opt_modeNames = [] \<rparr>,
      \<lparr> opt_name = js ''Freygish'', opt_pitchClasses = [0, 1, 4, 5, 7, 8, 10],
        opt_parent = ParentNull, opt_modeNames = [] \<rparr>,
      \<lparr> opt_name = js ''Whole Tone'', opt_pitchClasses = [0, 2, 4, 6, 8, 10],
        opt_parent = ParentNull, opt_modeNames = [] \<rparr>,
      \<lparr> opt_name = js ''Octatonic'', opt_pitchClasses = [0, 2, 3, 5, 6, 8, 9, 11],
        opt_parent = ParentNull, opt_modeNames = [] \<rparr>]"

text \<open>\<open>scaleMap.forEach((options) => Scale.addScale(new Scale(options)))\<close>\<close>

fun addScales :: "scale_options list \<Rightarrow> nat \<Rightarrow> scale_instances \<Rightarrow> error + scale_instances" where
  "addScales [] next instances = Inr instances"
| "addScales (options # rest) next instances =
     (case Scale_new options next instances of
        Inl e \<Rightarrow> Inl e
      | Inr (s, next') \<Rightarrow> addScales rest next' (Scale_addScale s instances))"

definition Scale_instances :: "error + scale_instances" where
  "Scale_instances = addScales scaleMap 0 []"

text \<open>
  A key is a generic scale with a tonic. \<open>Scale.at\<close> passes name, pitch classes and
  tonic only, so the parent of a key is \<open>null\<close> and it has no modes; the record leaves
  these two constant fields out.
\<close>

record key =
  key_name :: jsstring
  key_pitchClasses :: "int list"
  key_intervals :: "interval list"
  tonic :: pitch_like
  key_notes :: "pitch_like list"

definition Key_new :: "jsstring \<Rightarrow> int list \<Rightarrow> pitch_like \<Rightarrow> key" where
  "Key_new name pitchClasses t =
     \<lparr> key_name = name, key_pitchClasses = pitchClasses,
       key_intervals = intervals_of pitchClasses, tonic = t,
       key_notes = map (\<lambda>i. PitchLike_transposeBy t i) (intervals_of pitchClasses) \<rparr>"

definition Scale_at :: "scale \<Rightarrow> jsstring \<Rightarrow> error + key" where
  "Scale_at s tonicName =
     (case asPitchLike tonicName of
        Inl e \<Rightarrow> Inl e
      | Inr t \<Rightarrow> Inr (Key_new (scale_name s) (scale_pitchClasses s) t))"

text \<open>\<open>/^([a-gA-G][#...]*(?:\d*))\s*(.*)$/\<close>, greedy for the reason given at the chord names.\<close>

definition match_key_name :: "jsstring \<Rightarrow> (jsstring \<times> jsstring) option" where
  "match_key_name name =
     (case name of
        [] \<Rightarrow> None
      | c # r0 \<Rightarrow>
          (let accidentals = takeWhile is_accidental_unit_cs r0;
               r1 = dropWhile is_accidental_unit_cs r0;
               digits = takeWhile is_digit r1; r2 = dropWhile is_digit r1;
               scaleName = dropWhile is_space r2
           in if is_note_letter c \<and> no_line_terminator scaleName
              then Some (c # accidentals @ digits, scaleName)
              else None))"

definition Key_fromString :: "jsstring \<Rightarrow> error + key" where
  "Key_fromString name =
     (case match_key_name name of
        None \<Rightarrow> Inl (NoScaleNamed name)
      | Some (tonicName, scaleName) \<Rightarrow>
          (case Scale_instances of
             Inl e \<Rightarrow> Inl e
           | Inr instances \<Rightarrow>
               (case Scale_fromString instances
                       (if scaleName = [] then defaultScaleName else scaleName) of
                  Inl e \<Rightarrow> Inl e
                | Inr s \<Rightarrow> Scale_at s tonicName)))"

text \<open>A \<open>map\<close> whose callback may throw: the first error ends it.\<close>

fun map_result :: "('a \<Rightarrow> error + 'b) \<Rightarrow> 'a list \<Rightarrow> error + 'b list" where
  "map_result f [] = Inr []"
| "map_result f (x # xs) =
     (case f x of
        Inl e \<Rightarrow> Inl e
      | Inr y \<Rightarrow> (case map_result f xs of Inl e \<Rightarrow> Inl e | Inr ys \<Rightarrow> Inr (y # ys)))"

text \<open>
  \<open>Key.chords\<close>. An index past the end of \<open>modePitches\<close> reads \<open>undefined\<close>, which the
  transposition turns into \<open>NaN\<close>.
\<close>

definition modePitches_of :: "int list \<Rightarrow> nat \<Rightarrow> int list" where
  "modePitches_of ps i = drop i ps @ take i ps"

definition Key_chords :: "key \<Rightarrow> bool \<Rightarrow> error + chord list" where
  "Key_chords k sevenths =
     (let degrees = [0, 2, 4] @ (if sevenths then [6] else []);
          ps = key_pitchClasses k
      in map_result
           (\<lambda>i. (let modePitches = modePitches_of ps i;
                      chordPitches =
                        map (\<lambda>d. PitchLike_transposeBy (tonic k)
                                    (Interval_fromSemitones
                                       (if d < length modePitches then Num (modePitches ! d)
                                        else NaN)))
                            degrees
                  in Chord_fromPitches chordPitches))
           [0 ..< length ps])"

section \<open>Roman numerals (chordProgressions.ts)\<close>

definition chordRomanNumerals :: "jsstring list" where
  "chordRomanNumerals =
     [js ''I'', js ''II'', js ''III'', js ''IV'', js ''V'', js ''VI'', js ''VII'']"

definition romanNumeralModifiers :: "(jsstring \<times> jsstring) list" where
  "romanNumeralModifiers =
     [(js ''+'', js ''aug''), ([degree_sign], js ''dim''), (js ''6'', js ''maj6''),
      (js ''7'', js ''dom7''), (js ''+7'', js ''+7''),
      (degree_sign # js ''7'', degree_sign # js ''7''),
      (o_slash # js ''7'', o_slash # js ''7'')]"

text \<open>
  \<open>romanNumeralModifiers\<close> is an object literal, so a lookup also finds the properties
  it inherits from \<open>Object.prototype\<close>: for these keys the result is a function or an
  object, which is truthy and is then no key of the chord registry.
\<close>

definition Object_prototype_keys :: "jsstring list" where
  "Object_prototype_keys =
     [js ''constructor'', js ''hasOwnProperty'', js ''isPrototypeOf'',
      js ''propertyIsEnumerable'', js ''toLocaleString'', js ''toString'', js ''valueOf'',
      js ''__proto__'', js ''__defineGetter__'', js ''__defineSetter__'',
      js ''__lookupGetter__'', js ''__lookupSetter__'']"

text \<open>
  \<open>/^(\<flat>?)(i+v?|vi*)(.*?)([acd]?)$/i\<close>. After the numeral the lazy third group and the
  optional fourth take any rest without a line terminator: the fourth group is the
  last character when that is one of \<open>a\<close>, \<open>c\<close>, \<open>d\<close> (in either case), the third is
  what stands before it. A shorter numeral only lengthens the rest, so the greedy
  numeral is the one matched. A flat that no numeral follows cannot be given back,
  since no numeral starts with it.
\<close>

definition is_i :: "jschar \<Rightarrow> bool" where
  "is_i c = (c \<in> set (js ''iI''))"

definition is_v :: "jschar \<Rightarrow> bool" where
  "is_v c = (c \<in> set (js ''vV''))"

definition is_acd :: "jschar \<Rightarrow> bool" where
  "is_acd c = (c \<in> set (js ''acdACD''))"

definition match_numeral :: "jsstring \<Rightarrow> jsstring" where
  "match_numeral s =
     (case s of
        [] \<Rightarrow> []
      | c # cs \<Rightarrow>
          (if is_i c then
             (let ones = takeWhile is_i (c # cs); r = dropWhile is_i (c # cs)
              in ones @ (case r of [] \<Rightarrow> [] | d # _ \<Rightarrow> (if is_v d then [d] else [])))
           else if is_v c then c # takeWhile is_i cs
           else []))"

definition match_after_flat ::
  "jsstring \<Rightarrow> jsstring \<Rightarrow> (jsstring \<times> jsstring \<times> jsstring \<times> jsstring) option" where
  "match_after_flat accidental r0 =
     (let romanNumeral = match_numeral r0;
          r1 = drop (length romanNumeral) r0;
          inversion_letter = (if r1 \<noteq> [] \<and> is_acd (last r1) then [last r1] else []);
          modifiers = take (length r1 - length inversion_letter) r1
      in if romanNumeral \<noteq> [] \<and> no_line_terminator r1
         then Some (accidental, romanNumeral, modifiers, inversion_letter)
         else None)"

definition match_roman ::
  "jsstring \<Rightarrow> (jsstring \<times> jsstring \<times> jsstring \<times> jsstring) option" where
  "match_roman name =
     (case name of
        [] \<Rightarrow> match_after_flat [] []
      | c # cs \<Rightarrow> (if c = flat_sign then match_after_flat [c] cs else match_after_flat [] name))"

text \<open>
  The argument \<open>scale\<close> of the resolver, as the resolver sees it: it reads the
  property \<open>tonic\<close>, which it compares with \<open>null\<close>, and the property \<open>pitches\<close>, which
  it indexes. A property the object does not have reads \<open>undefined\<close> (\<open>None\<close>), and
  indexing \<open>undefined\<close> throws a \<open>TypeError\<close>.
\<close>

record roman_scale =
  rs_tonic :: "pitch_like option"
  rs_pitches :: "pitch_like list option"

definition chordType_of_case :: "jsstring \<Rightarrow> error + jsstring" where
  "chordType_of_case romanNumeral =
     (if romanNumeral = toUpperCase romanNumeral then Inr (js ''Major'')
      else if romanNumeral = toLowerCase romanNumeral then Inr (js ''Minor'')
      else Inl (MixedCase romanNumeral))"

definition chordType_of_modifiers :: "jsstring \<Rightarrow> jsstring \<Rightarrow> error + jsstring" where
  "chordType_of_modifiers chordType modifiers =
     (if modifiers = [] then Inr chordType
      else if modifiers \<in> set Object_prototype_keys then Inl (UnknownChordName modifiers)
      else (case map_of romanNumeralModifiers modifiers of
              None \<Rightarrow> Inl (UnknownModifier modifiers)
            | Some t \<Rightarrow> Inr t))"

definition chordFromRomanNumeral :: "jsstring \<Rightarrow> roman_scale \<Rightarrow> error + chord" where
  "chordFromRomanNumeral name sc =
     (case match_roman name of
        None \<Rightarrow> Inl (NotRomanNumeral name)
      | Some (accidental, romanNumeral, modifiers, inversion_letter) \<Rightarrow>
          (if rs_tonic sc = None then Inl RequiresTonic
           else (let degree = indexOf chordRomanNumerals (toUpperCase romanNumeral)
                 in if degree < 0 then Inl NotAChordName
                    else (case chordType_of_case romanNumeral of
                            Inl e \<Rightarrow> Inl e
                          | Inr chordType0 \<Rightarrow>
                     (case chordType_of_modifiers chordType0 modifiers of
                        Inl e \<Rightarrow> Inl e
                      | Inr chordType \<Rightarrow>
                     (case ChordClass_fromString chordType of
                        Inl e \<Rightarrow> Inl e
                      | Inr cc \<Rightarrow>
                     (case rs_pitches sc of
                        None \<Rightarrow> Inl TypeError
                      | Some ps \<Rightarrow>
                     (case ChordClass_at cc
                             (if nat degree < length ps then Some (ps ! nat degree) else None) of
                        Inl e \<Rightarrow> Inl e
                      | Inr ch \<Rightarrow>
                          (if inversion_letter = [] then Inr ch
                           else Chord_invert ch (KeyString inversion_letter))))))))))"

text \<open>
  \<open>Key.fromRomanNumeral\<close> hands the key itself to the resolver. A key has the
  properties \<open>name\<close>, \<open>pitchClasses\<close>, \<open>parent\<close>, \<open>modes\<close>, \<open>intervals\<close>, \<open>tonic\<close> and
  \<open>notes\<close>; it has no property \<open>pitches\<close>, so that read is \<open>undefined\<close>.
\<close>

definition Key_as_roman_scale :: "key \<Rightarrow> roman_scale" where
  "Key_as_roman_scale k = \<lparr> rs_tonic = Some (tonic k), rs_pitches = None \<rparr>"

definition Key_fromRomanNumeral :: "key \<Rightarrow> jsstring \<Rightarrow> error + chord" where
  "Key_fromRomanNumeral k name = chordFromRomanNumeral name (Key_as_roman_scale k)"

section \<open>Verification: the notation codec\<close>

subsection \<open>Arithmetic and digits\<close>

lemma js_rem_nonneg: "0 \<le> a \<Longrightarrow> js_rem a 12 = a mod 12"
  by (simp add: js_rem_def)

lemma normalize_mod: "normalizePitchClass (Num x) = Num (x mod 12)"
proof -
  have "js_rem (js_rem x 12 + 12) 12 = x mod 12"
  proof (cases "x < 0")
    case True
    define r where "r = (- x) mod 12"
    have r: "0 \<le> r" "r < 12" by (simp_all add: r_def)
    have "(12 - r) mod 12 = (- r) mod 12"
      by (metis add.commute mod_add_self2 uminus_add_conv_diff)
    also have "\<dots> = x mod 12"
      unfolding r_def by (simp add: mod_minus_eq)
    finally have e: "(12 - r) mod 12 = x mod 12" .
    from True have "js_rem x 12 = - r" by (simp add: js_rem_def r_def)
    moreover from r have "js_rem (- r + 12) 12 = (12 - r) mod 12"
      by (simp add: js_rem_def)
    ultimately show ?thesis using e by simp
  next
    case False
    then show ?thesis by (simp add: js_rem_def)
  qed
  then show ?thesis by (simp add: normalizePitchClass_def)
qed

lemma showNat_digits: "showNat n \<noteq> [] \<and> list_all is_digit (showNat n)"
proof (induction n rule: showNat.induct)
  case (1 n)
  show ?case
  proof (cases "n < 10")
    case True
    then show ?thesis by (simp add: showNat.simps[of n] is_digit_def)
  next
    case False
    have "n mod 10 < 10" by simp
    then have "is_digit (48 + n mod 10)" unfolding is_digit_def by linarith
    with False 1 show ?thesis by (simp add: showNat.simps[of n])
  qed
qed

lemma Number_of_digits_snoc:
  "Number_of_digits (ds @ [d]) = 10 * Number_of_digits ds + int (d - 48)"
  by (simp add: Number_of_digits_def)

lemma Number_of_digits_showNat: "Number_of_digits (showNat n) = int n"
proof (induction n rule: showNat.induct)
  case (1 n)
  show ?case
  proof (cases "n < 10")
    case True
    then show ?thesis by (simp add: showNat.simps[of n] Number_of_digits_def)
  next
    case False
    with 1 have "Number_of_digits (showNat (n div 10)) = int (n div 10)" by simp
    with False show ?thesis
      by (simp add: showNat.simps[of n] Number_of_digits_snoc zdiv_int zmod_int)
  qed
qed

lemma digit_not_accidental: "is_digit c \<Longrightarrow> \<not> is_accidental_unit c"
  by (auto simp: is_digit_def is_accidental_unit_def js_def sharp_sign_def flat_sign_def
      surrogate_D834_def surrogate_DD2A_def surrogate_DD2B_def)

lemma parse_printed_name:
  assumes ds: "ds \<noteq> []" "list_all is_digit ds" and k: "0 \<le> k" "k < 12"
  shows "pitchFromScientificNotation (SharpNoteNames ! nat k @ ds)
         = Inr (Num (k + 12 * (1 + Number_of_digits ds)))"
proof -
  from ds obtain d ds' where d: "ds = d # ds'" "is_digit d" "list_all is_digit ds'"
    by (cases ds) auto
  then have nd: "\<not> is_accidental_unit d" by (simp add: digit_not_accidental)
  have sh: "is_accidental_unit sharp_sign"
    by (simp add: is_accidental_unit_def)
  from k have "k = 0 \<or> k = 1 \<or> k = 2 \<or> k = 3 \<or> k = 4 \<or> k = 5 \<or> k = 6 \<or> k = 7
     \<or> k = 8 \<or> k = 9 \<or> k = 10 \<or> k = 11" by presburger
  then show ?thesis
    using d nd sh
    by (elim disjE; simp add: pitchFromScientificNotation_def match_scientific_def
        SharpNoteNames_def js_def is_note_letter_def toUpperCase_def upper_char_def
        add_accidentals_def AccidentalValues_def double_sharp_def double_flat_def)
qed

text \<open>
  C1. Scientific-notation round trip: parsing the printed scientific notation of \<open>n\<close>
  gives \<open>n\<close> back, the print being the sharp name of \<open>n mod 12\<close> followed by the
  octave \<open>floor(n / 12) - 1\<close>. The claim takes every MIDI number from 0; the octave
  of the numbers below 12 is \<open>-1\<close>, and the grammar has no sign, so the round trip
  holds from 12 on (octave 0 and above).
\<close>

theorem scientific_roundtrip_from_octave_0:
  assumes "12 \<le> n"
  shows "pitchToScientificNotation (Num n)
           = SharpNoteNames ! nat (n mod 12) @ Number_toString (Num (n div 12 - 1))
         \<and> pitchFromScientificNotation (pitchToScientificNotation (Num n)) = Inr (Num n)"
proof -
  have k: "0 \<le> n mod 12" "n mod 12 < 12" by simp_all
  have pr: "pitchToScientificNotation (Num n)
           = SharpNoteNames ! nat (n mod 12) @ Number_toString (Num (n div 12 - 1))"
    using k by (simp add: pitchToScientificNotation_def normalize_mod getPitchClassName_def
        NoteNames_def octave_of_def SharpNoteNames_def)
  from assms have o: "0 \<le> n div 12 - 1" by simp
  then have ts: "Number_toString (Num (n div 12 - 1)) = showNat (nat (n div 12 - 1))" by simp
  have "pitchFromScientificNotation (SharpNoteNames ! nat (n mod 12) @ showNat (nat (n div 12 - 1)))
        = Inr (Num (n mod 12 + 12 * (1 + Number_of_digits (showNat (nat (n div 12 - 1))))))"
    using parse_printed_name[OF _ _ k] showNat_digits by blast
  also have "\<dots> = Inr (Num n)"
    using o by (simp add: Number_of_digits_showNat)
  finally show ?thesis using pr ts by simp
qed

theorem scientific_roundtrip_from_octave_0_witness:
  "(12::int) \<le> 61
   \<and> pitchToScientificNotation (Num 61) = js ''C'' @ [sharp_sign] @ js ''4''
   \<and> pitchFromScientificNotation (pitchToScientificNotation (Num 61)) = Inr (Num 61)"
proof -
  have p: "pitchToScientificNotation (Num 61) = js ''C'' @ [sharp_sign] @ js ''4''"
    by (simp add: pitchToScientificNotation_def normalize_mod getPitchClassName_def
        NoteNames_def octave_of_def SharpNoteNames_def showNat.simps js_def)
  have r: "(12::int) \<le> 61" by simp
  have "pitchFromScientificNotation (pitchToScientificNotation (Num 61)) = Inr (Num 61)"
    using scientific_roundtrip_from_octave_0[OF r] by (rule conjunct2)
  with p r show ?thesis by blast
qed

text \<open>The claim as stated fails at \<open>n = 0\<close>: the print is \<open>C-1\<close>, which does not parse.\<close>

theorem scientific_roundtrip_fails_at_0:
  "pitchToScientificNotation (Num 0) = js ''C-1''
   \<and> pitchFromScientificNotation (pitchToScientificNotation (Num 0))
       = Inl (NotScientificNotation (js ''C-1''))"
proof -
  have p: "pitchToScientificNotation (Num 0) = js ''C-1''"
    by (simp add: pitchToScientificNotation_def normalize_mod getPitchClassName_def
        NoteNames_def octave_of_def SharpNoteNames_def showNat.simps js_def)
  have "pitchFromScientificNotation (js ''C-1'') = Inl (NotScientificNotation (js ''C-1''))"
    by (simp add: pitchFromScientificNotation_def match_scientific_def js_def
        is_accidental_unit_def is_digit_def is_note_letter_def sharp_sign_def flat_sign_def
        surrogate_D834_def surrogate_DD2A_def surrogate_DD2B_def)
  with p show ?thesis by simp
qed

subsection \<open>Helmholtz notation\<close>

lemmas helmholtz_eval =
  pitchFromHelmholtzNotation_def match_helmholtz_def parsePitchClass_def match_pitch_class_def
  js_def is_accidental_unit_def is_note_letter_def is_comma_def is_apostrophe_def
  sharp_sign_def flat_sign_def surrogate_D834_def surrogate_DD2A_def surrogate_DD2B_def
  SharpNoteNames_def toUpperCase_def upper_char_def add_accidentals_def AccidentalValues_def
  double_sharp_def double_flat_def Number_of_bool_def is_high_surrogate_def is_low_surrogate_def

text \<open>
  C3. Helmholtz parsing: the claim computes the octave from the case of the letter,
  an upper-case letter one octave below the lower-case one. The source compares the
  whole pitch-class name, letter and accidentals, with its upper-casing, so an
  upper-case letter followed by the ASCII flat \<open>b\<close> is taken for lower case:
  \<open>Cb\<close> parses to 47 like \<open>cb\<close>, where the claim gives \<open>12 * (4 - 1) + (0 - 1) = 35\<close>,
  the value the source itself gives when the flat is written with the flat sign.
\<close>

theorem helmholtz_upper_case_with_ascii_flat:
  "pitchFromHelmholtzNotation (js ''Cb'') = Inr (Num 47)
   \<and> pitchFromHelmholtzNotation (js ''cb'') = Inr (Num 47)
   \<and> pitchFromHelmholtzNotation (js ''C'' @ [flat_sign]) = Inr (Num 35)
   \<and> pitchFromHelmholtzNotation (js ''c'' @ [flat_sign]) = Inr (Num 47)"
  by (simp add: helmholtz_eval)

subsection \<open>Pitch names\<close>

lemma match_scientific_Nil: "match_scientific [] = None"
  by (simp add: match_scientific_def)

lemma match_helmholtz_Nil: "match_helmholtz [] = None"
  by (simp add: match_helmholtz_def)

lemma Pitch_fromString_Nil: "Pitch_fromString [] = Inl (NotHelmholtzNotation [])"
  by (simp add: Pitch_fromString_def pitchFromHelmholtzNotation_def match_helmholtz_Nil)

lemma parse_Eb4: "Pitch_fromString (js ''Eb4'') = Inr \<lparr> midiNumber = Num 63, pitch_name = js ''Eb4'' \<rparr>"
  by (simp add: Pitch_fromString_def pitchFromScientificNotation_def match_scientific_def
      js_def is_digit_def is_accidental_unit_def is_note_letter_def sharp_sign_def flat_sign_def
      surrogate_D834_def surrogate_DD2A_def surrogate_DD2B_def Number_of_digits_def
      SharpNoteNames_def toUpperCase_def upper_char_def add_accidentals_def AccidentalValues_def
      double_sharp_def double_flat_def Pitch_new_def)

text \<open>
  C10. Pitch name preservation: for every string that \<open>Pitch.fromString\<close> accepts, the
  pitch prints as that string, character for character; the name is stored, never
  printed again from the number. The witness is \<open>Eb4\<close>, whose number 63 would print
  as D sharp 4.
\<close>

theorem Pitch_fromString_keeps_name:
  assumes "Pitch_fromString s = Inr p"
  shows "Pitch_toString p = s"
proof -
  from assms have ne: "s \<noteq> []" using Pitch_fromString_Nil by auto
  from assms obtain m where "p = Pitch_new m (Some s)"
    by (auto simp: Pitch_fromString_def split: sum.splits)
  with ne show ?thesis by (simp add: Pitch_new_def Pitch_toString_def)
qed

theorem Pitch_fromString_keeps_name_witness:
  "Pitch_fromString (js ''Eb4'') = Inr \<lparr> midiNumber = Num 63, pitch_name = js ''Eb4'' \<rparr>
   \<and> Pitch_toString \<lparr> midiNumber = Num 63, pitch_name = js ''Eb4'' \<rparr> = js ''Eb4''
   \<and> pitchToScientificNotation (Num 63) = js ''D'' @ [sharp_sign] @ js ''4''"
proof -
  have "pitchToScientificNotation (Num 63) = js ''D'' @ [sharp_sign] @ js ''4''"
    by (simp add: pitchToScientificNotation_def normalize_mod getPitchClassName_def
        NoteNames_def octave_of_def SharpNoteNames_def showNat.simps js_def)
  with parse_Eb4 Pitch_fromString_keeps_name[OF parse_Eb4] show ?thesis by blast
qed

section \<open>Verification: chord classes and chords\<close>

subsection \<open>The registry\<close>

lemma chordClassArray_eval:
  "chordClassArray =
     [\<lparr>cc_name = js ''Major'', cc_fullName = js ''Major'', cc_abbrs = [[], js ''M''],
        cc_intervals = map Interval [Num 0, Num 4, Num 7]\<rparr>,
      \<lparr>cc_name = js ''Minor'', cc_fullName = js ''Minor'', cc_abbrs = [js ''m''],
        cc_intervals = map Interval [Num 0, Num 3, Num 7]\<rparr>,
      \<lparr>cc_name = js ''Augmented'', cc_fullName = js ''Augmented'', cc_abbrs = [js ''+'', js ''aug''],
        cc_intervals = map Interval [Num 0, Num 4, Num 8]\<rparr>,
      \<lparr>cc_name = js ''Dim'', cc_fullName = js ''Diminished'', cc_abbrs = [[degree_sign], js ''dim''],
        cc_intervals = map Interval [Num 0, Num 3, Num 6]\<rparr>,
      \<lparr>cc_name = js ''Sus2'', cc_fullName = js ''Sus2'', cc_abbrs = [js ''sus2''],
        cc_intervals = map Interval [Num 0, Num 2, Num 7]\<rparr>,
      \<lparr>cc_name = js ''Sus4'', cc_fullName = js ''Sus4'', cc_abbrs = [js ''sus4''],
        cc_intervals = map Interval [Num 0, Num 5, Num 7]\<rparr>,
      \<lparr>cc_name = js ''Dom 7th'', cc_fullName = js ''Dominant 7th'', cc_abbrs = [js ''7'', js ''dom7''],
        cc_intervals = map Interval [Num 0, Num 4, Num 7, Num 10]\<rparr>,
      \<lparr>cc_name = js ''Augmented 7th'', cc_fullName = js ''Augmented 7th'',
        cc_abbrs = [js ''+7'', js ''7aug''],
        cc_intervals = map Interval [Num 0, Num 4, Num 8, Num 10]\<rparr>,
      \<lparr>cc_name = js ''Dim 7th'', cc_fullName = js ''Diminished 7th'',
        cc_abbrs = [degree_sign # js ''7'', js ''dim7''],
        cc_intervals = map Interval [Num 0, Num 3, Num 6, Num 9]\<rparr>,
      \<lparr>cc_name = js ''Maj 7th'', cc_fullName = js ''Major 7th'', cc_abbrs = [js ''maj7''],
        cc_intervals = map Interval [Num 0, Num 4, Num 7, Num 11]\<rparr>,
      \<lparr>cc_name = js ''Min 7th'', cc_fullName = js ''Minor 7th'', cc_abbrs = [js ''min7''],
        cc_intervals = map Interval [Num 0, Num 3, Num 7, Num 10]\<rparr>,
      \<lparr>cc_name = js ''Dom 7b5'', cc_fullName = js ''Dominant 7b5'', cc_abbrs = [js ''7b5''],
        cc_intervals = map Interval [Num 0, Num 4, Num 6, Num 10]\<rparr>,
      \<lparr>cc_name = js ''Min 7th b5'', cc_fullName = js ''Minor 7th b5'',
        cc_abbrs = [[o_slash], [O_slash], js ''m7b5''],
        cc_intervals = map Interval [Num 0, Num 3, Num 6, Num 10]\<rparr>,
      \<lparr>cc_name = js ''Dim Maj 7th'', cc_fullName = js ''Diminished Maj 7th'',
        cc_abbrs = [degree_sign # js ''Maj7''],
        cc_intervals = map Interval [Num 0, Num 3, Num 6, Num 11]\<rparr>,
      \<lparr>cc_name = js ''Min-Maj 7th'', cc_fullName = js ''Minor-Major 7th'',
        cc_abbrs = [js ''min/maj7'', js ''min(maj7)''],
        cc_intervals = map Interval [Num 0, Num 3, Num 7, Num 11]\<rparr>,
      \<lparr>cc_name = js ''6th'', cc_fullName = js ''6th'',
        cc_abbrs = [js ''6'', js ''M6'', js ''M6'', js ''maj6''],
        cc_intervals = map Interval [Num 0, Num 4, Num 7, Num 9]\<rparr>,
      \<lparr>cc_name = js ''Min 6th'', cc_fullName = js ''Minor 6th'', cc_abbrs = [js ''m6'', js ''min6''],
        cc_intervals = map Interval [Num 0, Num 3, Num 7, Num 9]\<rparr>]"
  by (simp add: chordClassArray_def chordClassTable_def make_chord_class_def js_def
      tone_of_char_def is_digit_def Interval_fromSemitones_def)

lemma chordClassArray_0:
  "chordClassArray ! 0 =
     \<lparr>cc_name = js ''Major'', cc_fullName = js ''Major'', cc_abbrs = [[], js ''M''],
       cc_intervals = map Interval [Num 0, Num 4, Num 7]\<rparr>"
  by (simp add: chordClassArray_eval)

lemma fold_keys_apply:
  "fold (\<lambda>key m'. if key = [] then m' else m'(key \<mapsto> cc)) ks m k
     = (if k \<noteq> [] \<and> k \<in> set ks then Some cc else m k)"
  by (induction ks arbitrary: m) auto

lemma addChord_apply:
  "addChord cc m k = (if k \<noteq> [] \<and> k \<in> set (chord_keys cc) then Some cc else m k)"
  by (simp add: addChord_def fold_keys_apply)

lemma find_snoc:
  "List.find P (xs @ [x]) =
     (case List.find P xs of None \<Rightarrow> (if P x then Some x else None) | Some y \<Rightarrow> Some y)"
  by (induction xs) auto

lemma fold_addChord_apply:
  "fold addChord ccs m k =
     (if k = [] then m k
      else (case List.find (\<lambda>cc. k \<in> set (chord_keys cc)) (rev ccs) of
              None \<Rightarrow> m k | Some cc \<Rightarrow> Some cc))"
  by (induction ccs arbitrary: m) (auto simp: addChord_apply find_snoc split: option.splits)

lemma chordMap_apply:
  "chordMap k =
     (if k = [] then None
      else List.find (\<lambda>cc. k \<in> set (chord_keys cc)) (rev chordClassArray))"
  by (simp add: chordMap_def fold_addChord_apply split: option.splits)

lemma chordMap_Major: "chordMap (js ''Major'') = Some (chordClassArray ! 0)"
  by (simp add: chordMap_apply chordClassArray_eval chord_keys_def pitchKey_def showNat.simps
      js_def degree_sign_def o_slash_def O_slash_def)

text \<open>
  C5. Registry alias coverage: every chord class of the built-in table is found in the
  registry under each of its keys (name, full name, every abbreviation, the
  comma-joined semitones). \<open>addChord\<close> skips a key that is the empty string, and the
  first abbreviation of Major is the empty string; so the coverage holds for the
  non-empty keys, all of them, and no key of one class is taken over by a later one.
\<close>

theorem registry_covers_nonempty_keys:
  "\<forall>cc \<in> set chordClassArray. \<forall>k \<in> set (chord_keys cc). k \<noteq> [] \<longrightarrow> chordMap k = Some cc"
  by (simp add: chordMap_apply chordClassArray_eval chord_keys_def pitchKey_def showNat.simps
      js_def degree_sign_def o_slash_def O_slash_def)

theorem registry_covers_nonempty_keys_witness:
  "chordClassArray ! 0 \<in> set chordClassArray
   \<and> js ''M'' \<in> set (chord_keys (chordClassArray ! 0))
   \<and> js ''M'' \<noteq> []
   \<and> chordMap (js ''M'') = Some (chordClassArray ! 0)"
proof -
  have a: "chordClassArray ! 0 \<in> set chordClassArray"
    by (simp add: chordClassArray_eval)
  have b: "js ''M'' \<in> set (chord_keys (chordClassArray ! 0))"
    by (simp add: chordClassArray_0 chord_keys_def)
  have c: "js ''M'' \<noteq> []" by (simp add: js_def)
  from registry_covers_nonempty_keys a b c
  have "chordMap (js ''M'') = Some (chordClassArray ! 0)" by blast
  with a b c show ?thesis by blast
qed

text \<open>The claim as stated fails at the empty abbreviation of Major: it is no key of the registry.\<close>

theorem registry_skips_empty_abbreviation:
  "chordClassArray ! 0 \<in> set chordClassArray
   \<and> cc_name (chordClassArray ! 0) = js ''Major''
   \<and> [] \<in> set (cc_abbrs (chordClassArray ! 0))
   \<and> chordMap [] = None"
  by (simp add: chordClassArray_eval chordMap_apply)

subsection \<open>Chord names\<close>

lemma match_chord_name_root:
  "match_chord_name s = Some (rootName, className) \<Longrightarrow> rootName \<noteq> []"
  by (auto simp: match_chord_name_def Let_def split: list.splits if_splits)

lemma Pitch_fromString_E: "Pitch_fromString (js ''E'') = Inr \<lparr>midiNumber = Num 40, pitch_name = js ''E''\<rparr>"
  by (simp add: Pitch_fromString_def helmholtz_eval is_digit_def Pitch_new_def)

lemma match_E_Major: "match_chord_name (js ''E Major'') = Some (js ''E'', js ''Major'')"
  by (simp add: match_chord_name_def js_def is_comma_def is_apostrophe_def is_digit_def
      is_accidental_unit_cs_def is_space_def is_note_letter_def no_line_terminator_def
      is_line_terminator_def sharp_sign_def flat_sign_def surrogate_D834_def surrogate_DD2A_def
      surrogate_DD2B_def)

text \<open>
  C9. Optional root in chord names: the claim, like the doc comment of
  \<open>Chord.fromString\<close>, has a bare chord-class name such as \<open>Major\<close> return the chord
  class. The first group of \<open>chordNameRegex\<close> starts with a mandatory letter \<open>a\<close> to \<open>g\<close>,
  so \<open>Major\<close> is refused as no chord name at all, the root name of a match is never
  empty, and no input whatever returns a chord class. With a root the result is the
  chord of the class at the pitch the root names.
\<close>

theorem Chord_fromString_needs_root:
  "Chord_fromString (js ''Major'') = Inl (NotChordName (js ''Major''))
   \<and> Chord_fromString s \<noteq> Inr (AChordClass cc)
   \<and> Chord_fromString (js ''E Major'') =
       (case Chord_new (chordClassArray ! 0)
               (Some (APitch \<lparr>midiNumber = Num 40, pitch_name = js ''E''\<rparr>)) 0 of
          Inl e \<Rightarrow> Inl e | Inr ch \<Rightarrow> Inr (AChord ch))"
proof -
  have 1: "Chord_fromString (js ''Major'') = Inl (NotChordName (js ''Major''))"
    by (simp add: Chord_fromString_def match_chord_name_def js_def is_note_letter_def)
  have 2: "Chord_fromString s \<noteq> Inr (AChordClass cc)"
    using match_chord_name_root
    by (auto simp: Chord_fromString_def split: option.splits sum.splits if_splits)
  have "js ''Major'' \<noteq> []" by (simp add: js_def)
  then have 3: "Chord_fromString (js ''E Major'') =
       (case Chord_new (chordClassArray ! 0)
               (Some (APitch \<lparr>midiNumber = Num 40, pitch_name = js ''E''\<rparr>)) 0 of
          Inl e \<Rightarrow> Inl e | Inr ch \<Rightarrow> Inr (AChord ch))"
    using match_chord_name_root[OF match_E_Major]
    by (simp add: Chord_fromString_def match_E_Major ChordClass_fromString_def chordMap_Major
        Pitch_fromString_E ChordClass_at_def)
  from 1 2 3 show ?thesis by blast
qed

subsection \<open>Inversions\<close>

lemma Major_has_3_intervals:
  "length (cc_intervals (chordClassArray ! 0)) = 3"
  by (simp add: chordClassArray_0)

text \<open>
  C4. Inversion validation: the claim has the constructor refuse a numeric inversion
  outside \<open>[0, intervals.length)\<close>. The constructor has no such check: with a root it
  returns a chord for every integer, keeps the number, and rotates intervals and
  pitches by it unless it is 0; \<open>invert\<close> with a number passes it on unchanged. The
  letters \<open>a\<close>, \<open>c\<close>, \<open>d\<close> give the inversions 1, 2, 3, and any other string fails with
  the error that names it.
\<close>

theorem chord_inversion_not_validated:
  "Chord_new cc (Some r) k =
     Inr \<lparr> chordClass = cc, root = Some r, inversion = k,
           abbr = (case cc_abbrs cc of [] \<Rightarrow> None
                   | a # _ \<Rightarrow> Some (trim_end (PitchLike_toString r @ js '' '' @ a))),
           abbrs = map (\<lambda>a. trim_end (PitchLike_toString r @ js '' '' @ a)) (cc_abbrs cc),
           intervals = (if k = 0 then cc_intervals cc else rotateArray (cc_intervals cc) k),
           pitches = (if k = 0 then map (PitchLike_transposeBy r) (cc_intervals cc)
                      else rotateArray (map (PitchLike_transposeBy r) (cc_intervals cc)) k) \<rparr>
   \<and> Chord_invert c (KeyNumber k) = Chord_new (chordClass c) (root c) k
   \<and> Chord_invert c (KeyString s) =
       (if s = js ''a'' then Chord_new (chordClass c) (root c) 1
        else if s = js ''c'' then Chord_new (chordClass c) (root c) 2
        else if s = js ''d'' then Chord_new (chordClass c) (root c) 3
        else Inl (UnknownInversion s))"
  by (cases "cc_abbrs cc") (simp_all add: Chord_new_def Chord_invert_def inversionNames_def js_def Let_def)

text \<open>The claim as stated fails at inversion 3 of the Major triad on E: a chord is returned.\<close>

theorem chord_inversion_3_of_triad_accepted:
  "length (cc_intervals (chordClassArray ! 0)) = 3
   \<and> Chord_new (chordClassArray ! 0) (Some (APitchClass (PitchClass (Num 4)))) 3 =
       Inr \<lparr> chordClass = chordClassArray ! 0, root = Some (APitchClass (PitchClass (Num 4))),
             inversion = 3, abbr = Some (js ''E''), abbrs = [js ''E'', js ''E M''],
             intervals = map Interval [Num 0, Num 4, Num 7],
             pitches = map (\<lambda>n. APitchClass (PitchClass (Num n))) [4, 8, 11] \<rparr>"
  by (simp add: chordClassArray_0 Chord_new_def rotateArray_def PitchClass_toString_def
      getPitchClassName_def NoteNames_def SharpNoteNames_def trim_end_def is_space_def js_def
      PitchClass_transposeBy_def PitchClass_fromSemitones_def normalize_mod Let_def)

section \<open>Verification: scales and modes\<close>

lemma PitchClassParser_normalize_mod: "PitchClassParser_normalize x = x mod 12"
  using normalize_mod[of x] by (simp add: normalizePitchClass_def PitchClassParser_normalize_def)

lemma rotatePitchClasses_rotate:
  assumes "pcs \<noteq> []"
  shows "rotatePitchClasses pcs i = map (\<lambda>pc. (pc - hd (rotate i pcs)) mod 12) (rotate i pcs)"
proof -
  have "rotate i pcs = drop (i mod length pcs) pcs @ take (i mod length pcs) pcs"
    by (simp add: rotate_drop_take)
  with assms show ?thesis
    by (simp add: rotatePitchClasses_def Let_def PitchClassParser_normalize_mod)
qed

lemma rotatePitchClasses_length: "length (rotatePitchClasses pcs i) = length pcs"
  by (cases "pcs = []") (simp_all add: rotatePitchClasses_def Let_def)

lemma rotatePitchClasses_hd: "pcs \<noteq> [] \<Longrightarrow> hd (rotatePitchClasses pcs i) = 0"
  by (simp add: rotatePitchClasses_rotate hd_map)


lemma Scale_new_modes:
  assumes "Scale_new opts next inst = Inr (s, next')"
  shows "scale_id s = next" "scale_name s = opt_name opts"
    "scale_pitchClasses s = opt_pitchClasses opts"
    "scale_modes s = map (new_mode next (opt_pitchClasses opts)) (enumerate 0 (opt_modeNames opts))"
  using assms by (auto simp: Scale_new_def split: sum.splits)

lemma new_mode_nth:
  assumes "i < length names"
  shows "map (new_mode this pcs) (enumerate 0 names) ! i =
           Scale (this + 1 + i) (names ! i) (rotatePitchClasses pcs i) (Some this)
             (intervals_of (rotatePitchClasses pcs i)) []"
  using assms by (simp add: nth_enumerate_eq new_mode_def Let_def)

lemma addScales_other:
  "addScales os next inst = Inr inst' \<Longrightarrow> n \<notin> opt_name ` set os \<Longrightarrow> map_of inst' n = map_of inst n"
proof (induction os arbitrary: "next" inst)
  case Nil
  then show ?case by simp
next
  case (Cons a os)
  from Cons.prems(1) obtain s next' where
    s: "Scale_new a next inst = Inr (s, next')"
    and r: "addScales os next' (Scale_addScale s inst) = Inr inst'"
    by (auto split: sum.splits)
  from Cons.prems(2) have "n \<noteq> opt_name a" "n \<notin> opt_name ` set os" by auto
  with Cons.IH[OF r] Scale_new_modes(2)[OF s] show ?case
    by (simp add: Scale_addScale_def update_conv')
qed

lemma addScales_registers:
  "addScales os next inst = Inr inst' \<Longrightarrow> distinct (map opt_name os) \<Longrightarrow> opts \<in> set os \<Longrightarrow>
   \<exists>s. map_of inst' (opt_name opts) = Some s
       \<and> scale_name s = opt_name opts
       \<and> scale_pitchClasses s = opt_pitchClasses opts
       \<and> scale_modes s = map (new_mode (scale_id s) (opt_pitchClasses opts))
                            (enumerate 0 (opt_modeNames opts))"
proof (induction os arbitrary: "next" inst)
  case Nil
  then show ?case by simp
next
  case (Cons a os)
  from Cons.prems(1) obtain s next' where
    s: "Scale_new a next inst = Inr (s, next')"
    and r: "addScales os next' (Scale_addScale s inst) = Inr inst'"
    by (auto split: sum.splits)
  show ?case
  proof (cases "opts = a")
    case True
    from Cons.prems(2) have "opt_name a \<notin> opt_name ` set os" by auto
    from addScales_other[OF r this] Scale_new_modes[OF s] True show ?thesis
      by (simp add: Scale_addScale_def update_conv')
  next
    case False
    with Cons.prems have "opts \<in> set os" "distinct (map opt_name os)" by auto
    with Cons.IH[OF r] show ?thesis by blast
  qed
qed

lemma Scale_instances_ok: "\<exists>instances. Scale_instances = Inr instances"
  by (simp add: Scale_instances_def scaleMap_def Scale_new_def resolve_parent_def
      Scale_fromString_def Scale_addScale_def diatonicMajorScaleName_def
      majorPentatonicScaleName_def js_def)

lemma scaleMap_names_distinct: "distinct (map opt_name scaleMap)"
  by (simp add: scaleMap_def diatonicMajorScaleName_def majorPentatonicScaleName_def js_def)

lemma scaleMap_mode_counts:
  "opts \<in> set scaleMap \<Longrightarrow> opt_modeNames opts \<noteq> [] \<Longrightarrow>
   length (opt_modeNames opts) = length (opt_pitchClasses opts) \<and> opt_pitchClasses opts \<noteq> []"
  by (auto simp: scaleMap_def)

text \<open>
  C8. Mode derivation: every built-in scale that is constructed with mode names is
  registered under its name, has as many modes as pitch classes, and its mode \<open>i\<close> has
  the pitch classes of the scale rotated left by \<open>i\<close>, each less the new first one and
  reduced mod 12; so a mode starts at 0 and has as many entries as the scale. The
  parent of a mode is the scale it was derived from (by identity), and the mode is an
  object of its own.
\<close>

theorem builtin_scale_modes:
  assumes "opts \<in> set scaleMap" and "opt_modeNames opts \<noteq> []"
  shows "\<exists>instances s.
           Scale_instances = Inr instances
         \<and> Scale_fromString instances (opt_name opts) = Inr s
         \<and> scale_pitchClasses s = opt_pitchClasses opts
         \<and> length (scale_modes s) = length (scale_pitchClasses s)
         \<and> (\<forall>i < length (scale_pitchClasses s).
               scale_pitchClasses (scale_modes s ! i)
                 = map (\<lambda>pc. (pc - hd (rotate i (scale_pitchClasses s))) mod 12)
                       (rotate i (scale_pitchClasses s))
             \<and> hd (scale_pitchClasses (scale_modes s ! i)) = 0
             \<and> length (scale_pitchClasses (scale_modes s ! i)) = length (scale_pitchClasses s)
             \<and> scale_name (scale_modes s ! i) = opt_modeNames opts ! i
             \<and> scale_parent (scale_modes s ! i) = Some (scale_id s)
             \<and> scale_id (scale_modes s ! i) \<noteq> scale_id s)"
proof -
  from Scale_instances_ok obtain instances where inst: "Scale_instances = Inr instances" ..
  then have a: "addScales scaleMap 0 [] = Inr instances" by (simp add: Scale_instances_def)
  from addScales_registers[OF a scaleMap_names_distinct assms(1)] obtain s where
    s: "map_of instances (opt_name opts) = Some s"
       "scale_pitchClasses s = opt_pitchClasses opts"
       "scale_modes s = map (new_mode (scale_id s) (opt_pitchClasses opts))
                            (enumerate 0 (opt_modeNames opts))"
    by blast
  from scaleMap_mode_counts[OF assms] have
    n: "length (opt_modeNames opts) = length (opt_pitchClasses opts)"
    and ne: "opt_pitchClasses opts \<noteq> []" by simp_all
  have len: "length (scale_modes s) = length (scale_pitchClasses s)"
    using s n by simp
  have modes: "\<forall>i < length (scale_pitchClasses s).
               scale_pitchClasses (scale_modes s ! i)
                 = map (\<lambda>pc. (pc - hd (rotate i (scale_pitchClasses s))) mod 12)
                       (rotate i (scale_pitchClasses s))
             \<and> hd (scale_pitchClasses (scale_modes s ! i)) = 0
             \<and> length (scale_pitchClasses (scale_modes s ! i)) = length (scale_pitchClasses s)
             \<and> scale_name (scale_modes s ! i) = opt_modeNames opts ! i
             \<and> scale_parent (scale_modes s ! i) = Some (scale_id s)
             \<and> scale_id (scale_modes s ! i) \<noteq> scale_id s"
  proof (intro allI impI)
    fix i assume "i < length (scale_pitchClasses s)"
    with s n have i: "i < length (opt_modeNames opts)" by simp
    have m: "scale_modes s ! i =
           Scale (scale_id s + 1 + i) (opt_modeNames opts ! i)
             (rotatePitchClasses (opt_pitchClasses opts) i) (Some (scale_id s))
             (intervals_of (rotatePitchClasses (opt_pitchClasses opts) i)) []"
      using new_mode_nth[OF i] s(3) by simp
    show "scale_pitchClasses (scale_modes s ! i)
                 = map (\<lambda>pc. (pc - hd (rotate i (scale_pitchClasses s))) mod 12)
                       (rotate i (scale_pitchClasses s))
             \<and> hd (scale_pitchClasses (scale_modes s ! i)) = 0
             \<and> length (scale_pitchClasses (scale_modes s ! i)) = length (scale_pitchClasses s)
             \<and> scale_name (scale_modes s ! i) = opt_modeNames opts ! i
             \<and> scale_parent (scale_modes s ! i) = Some (scale_id s)
             \<and> scale_id (scale_modes s ! i) \<noteq> scale_id s"
      using ne by (simp add: m s(2) rotatePitchClasses_rotate[OF ne] hd_map)
  qed
  have fs: "Scale_fromString instances (opt_name opts) = Inr s"
    using s(1) by (simp add: Scale_fromString_def)
  from inst fs s(2) len modes show ?thesis by blast
qed

theorem builtin_scale_modes_witness:
  "scaleMap ! 0 \<in> set scaleMap
   \<and> opt_modeNames (scaleMap ! 0) \<noteq> []
   \<and> opt_name (scaleMap ! 0) = js ''Diatonic Major''
   \<and> (\<exists>instances s.
          Scale_instances = Inr instances
        \<and> Scale_fromString instances (js ''Diatonic Major'') = Inr s
        \<and> scale_pitchClasses s = [0, 2, 4, 5, 7, 9, 11]
        \<and> length (scale_modes s) = 7
        \<and> scale_pitchClasses (scale_modes s ! 1) = [0, 2, 3, 5, 7, 9, 10]
        \<and> scale_name (scale_modes s ! 1) = js ''Dorian''
        \<and> scale_parent (scale_modes s ! 1) = Some (scale_id s))"
proof -
  have a: "scaleMap ! 0 \<in> set scaleMap" by (simp add: scaleMap_def)
  have b: "opt_modeNames (scaleMap ! 0) \<noteq> []" by (simp add: scaleMap_def)
  have c: "opt_name (scaleMap ! 0) = js ''Diatonic Major''"
    by (simp add: scaleMap_def diatonicMajorScaleName_def)
  have d: "opt_pitchClasses (scaleMap ! 0) = [0, 2, 4, 5, 7, 9, 11]"
    "opt_modeNames (scaleMap ! 0) ! 1 = js ''Dorian''"
    by (simp_all add: scaleMap_def)
  have r: "map (\<lambda>pc. (pc - hd (rotate 1 [0, 2, 4, 5, 7, 9, 11::int])) mod 12)
             (rotate 1 [0, 2, 4, 5, 7, 9, 11]) = [0, 2, 3, 5, 7, 9, 10]"
    by (simp add: rotate1_def)
  from builtin_scale_modes[OF a b] obtain instances s where
    s: "Scale_instances = Inr instances"
       "Scale_fromString instances (opt_name (scaleMap ! 0)) = Inr s"
       "scale_pitchClasses s = opt_pitchClasses (scaleMap ! 0)"
       "length (scale_modes s) = length (scale_pitchClasses s)"
    and m: "\<forall>i < length (scale_pitchClasses s).
               scale_pitchClasses (scale_modes s ! i)
                 = map (\<lambda>pc. (pc - hd (rotate i (scale_pitchClasses s))) mod 12)
                       (rotate i (scale_pitchClasses s))
             \<and> hd (scale_pitchClasses (scale_modes s ! i)) = 0
             \<and> length (scale_pitchClasses (scale_modes s ! i)) = length (scale_pitchClasses s)
             \<and> scale_name (scale_modes s ! i) = opt_modeNames (scaleMap ! 0) ! i
             \<and> scale_parent (scale_modes s ! i) = Some (scale_id s)
             \<and> scale_id (scale_modes s ! i) \<noteq> scale_id s"
    by blast
  from s(3) d have pcs: "scale_pitchClasses s = [0, 2, 4, 5, 7, 9, 11]" by simp
  then have "1 < length (scale_pitchClasses s)" by simp
  with m have "scale_pitchClasses (scale_modes s ! 1)
                 = map (\<lambda>pc. (pc - hd (rotate 1 (scale_pitchClasses s))) mod 12)
                       (rotate 1 (scale_pitchClasses s))"
      "scale_name (scale_modes s ! 1) = opt_modeNames (scaleMap ! 0) ! 1"
      "scale_parent (scale_modes s ! 1) = Some (scale_id s)" by blast+
  with pcs r d have m1: "scale_pitchClasses (scale_modes s ! 1) = [0, 2, 3, 5, 7, 9, 10]"
      "scale_name (scale_modes s ! 1) = js ''Dorian''"
      "scale_parent (scale_modes s ! 1) = Some (scale_id s)" by simp_all
  from s(4) pcs have "length (scale_modes s) = 7" by simp
  moreover from s(2) c have "Scale_fromString instances (js ''Diatonic Major'') = Inr s"
    by simp
  ultimately show ?thesis using a b c s(1) pcs m1 by blast
qed

section \<open>Verification: keys and their chords\<close>

lemma Diatonic_Major_registered:
  "\<exists>instances s. Scale_instances = Inr instances
     \<and> Scale_fromString instances (js ''Diatonic Major'') = Inr s
     \<and> scale_name s = js ''Diatonic Major''
     \<and> scale_pitchClasses s = [0, 2, 4, 5, 7, 9, 11]"
proof -
  from Scale_instances_ok obtain instances where inst: "Scale_instances = Inr instances" ..
  then have a: "addScales scaleMap 0 [] = Inr instances" by (simp add: Scale_instances_def)
  have m: "scaleMap ! 0 \<in> set scaleMap" by (simp add: scaleMap_def)
  have o: "opt_name (scaleMap ! 0) = js ''Diatonic Major''"
    "opt_pitchClasses (scaleMap ! 0) = [0, 2, 4, 5, 7, 9, 11]"
    by (simp_all add: scaleMap_def diatonicMajorScaleName_def)
  from addScales_registers[OF a scaleMap_names_distinct m] o obtain s where
    "map_of instances (js ''Diatonic Major'') = Some s"
    "scale_name s = js ''Diatonic Major''"
    "scale_pitchClasses s = [0, 2, 4, 5, 7, 9, 11]" by auto
  with inst show ?thesis by (auto simp: Scale_fromString_def)
qed

lemma asPitchLike_E: "asPitchLike (js ''E'') = Inr (APitchClass (PitchClass (Num 4)))"
  by (simp add: asPitchLike_def PitchClass_fromString_def parsePitchClass_def
      match_pitch_class_def js_def is_digit_def is_note_letter_def SharpNoteNames_def
      toUpperCase_def upper_char_def add_accidentals_def normalize_mod
      PitchClass_fromSemitones_def)

lemma match_E_Diatonic_Major:
  "match_key_name (js ''E Diatonic Major'') = Some (js ''E'', js ''Diatonic Major'')"
  by (simp add: match_key_name_def js_def is_digit_def
      is_accidental_unit_cs_def is_space_def is_note_letter_def no_line_terminator_def
      is_line_terminator_def sharp_sign_def flat_sign_def surrogate_D834_def surrogate_DD2A_def
      surrogate_DD2B_def)

lemma Key_E_Diatonic_Major:
  "Key_fromString (js ''E Diatonic Major'') =
     Inr (Key_new (js ''Diatonic Major'') [0, 2, 4, 5, 7, 9, 11] (APitchClass (PitchClass (Num 4))))"
proof -
  from Diatonic_Major_registered obtain instances s where
    i: "Scale_instances = Inr instances"
       "Scale_fromString instances (js ''Diatonic Major'') = Inr s"
       "scale_name s = js ''Diatonic Major''"
       "scale_pitchClasses s = [0, 2, 4, 5, 7, 9, 11]" by blast
  have n: "js ''Diatonic Major'' \<noteq> []" by (simp add: js_def)
  show ?thesis
    by (simp add: Key_fromString_def match_E_Diatonic_Major Scale_at_def asPitchLike_E i n)
qed

lemmas chordMap_eval = chordMap_apply chordClassArray_eval chord_keys_def pitchKey_def
  showNat.simps js_def degree_sign_def o_slash_def O_slash_def

lemma chordMap_Minor: "chordMap (js ''Minor'') = Some (chordClassArray ! 1)"
  by (simp add: chordMap_eval)

lemma chordMap_047: "chordMap (js ''0,4,7'') = Some (chordClassArray ! 0)"
  by (simp add: chordMap_eval)

lemma chordMap_037: "chordMap (js ''0,3,7'') = Some (chordClassArray ! 1)"
  by (simp add: chordMap_eval)

lemma chordMap_036: "chordMap (js ''0,3,6'') = Some (chordClassArray ! 3)"
  by (simp add: chordMap_eval)


lemma upt_7: "[0..<7] = [0, 1, 2, 3, 4, 5, 6::nat]"
  by (simp add: upt_rec)

lemmas chordMap_triads =
  chordMap_047[unfolded js_def, simplified] chordMap_037[unfolded js_def, simplified]
  chordMap_036[unfolded js_def, simplified]

lemma E_major_chords_eval:
  "Key_chords (Key_new (js ''Diatonic Major'') [0, 2, 4, 5, 7, 9, 11]
                 (APitchClass (PitchClass (Num 4)))) False
   = Inr (map (\<lambda>(c, r, ab). \<lparr> chordClass = chordClassArray ! c,
                    root = Some (APitchClass (PitchClass (Num r))), inversion = 0,
                    abbr = Some (hd ab), abbrs = ab,
                    intervals = cc_intervals (chordClassArray ! c),
                    pitches = map (\<lambda>i. APitchClass (PitchClass (Num ((r + i) mod 12))))
                                (if c = 0 then [0, 4, 7] else if c = 1 then [0, 3, 7] else [0, 3, 6]) \<rparr>)
          [(0, 4, [js ''E'', js ''E M'']),
           (1, 6, [js ''F'' @ [sharp_sign] @ js '' m'']),
           (1, 8, [js ''G'' @ [sharp_sign] @ js '' m'']),
           (0, 9, [js ''A'', js ''A M'']),
           (0, 11, [js ''B'', js ''B M'']),
           (1, 1, [js ''C'' @ [sharp_sign] @ js '' m'']),
           (3, 3, [js ''D'' @ [sharp_sign, 32, degree_sign], js ''D'' @ [sharp_sign] @ js '' dim''])])"
  by (simp add: Key_chords_def Key_new_def modePitches_of_def Let_def upt_7 intervals_of_def
      Interval_fromSemitones_def PitchClass_transposeBy_def PitchClass_fromSemitones_def
      normalize_mod Chord_fromPitches_def Interval_between_def ChordClass_fromIntervals_def
      fingerprint_def sort_rank_def showNat.simps js_def chordMap_triads ChordClass_at_def
      Chord_new_def chordClassArray_0 chordClassArray_eval PitchClass_toString_def
      getPitchClassName_def NoteNames_def SharpNoteNames_def trim_end_def is_space_def
      degree_sign_def sharp_sign_def)


lemma map_result_Inr: "map_result f xs = Inr ys \<Longrightarrow> map f xs = map Inr ys"
  by (induction xs arbitrary: ys) (auto split: sum.splits)

lemma modePitches_of_rotate: "i < length ps \<Longrightarrow> modePitches_of ps i = rotate i ps"
  by (simp add: modePitches_of_def rotate_drop_take)

lemma Key_chords_triads:
  assumes "Key_chords k False = Inr cs" and "4 < length (key_pitchClasses k)"
  shows "map Inr cs =
         map (\<lambda>i. Chord_fromPitches
                     (map (\<lambda>d. PitchLike_transposeBy (tonic k)
                                  (Interval_fromSemitones (Num (rotate i (key_pitchClasses k) ! d))))
                          [0, 2, 4]))
             [0 ..< length (key_pitchClasses k)]"
proof -
  let ?ps = "key_pitchClasses k"
  let ?f = "\<lambda>i. Chord_fromPitches
                 (map (\<lambda>d. PitchLike_transposeBy (tonic k)
                              (Interval_fromSemitones
                                 (if d < length (modePitches_of ?ps i)
                                  then Num (modePitches_of ?ps i ! d) else NaN)))
                      [0, 2, 4])"
  from assms(1) have "map_result ?f [0 ..< length ?ps] = Inr cs"
    by (simp add: Key_chords_def Let_def)
  then have "map Inr cs = map ?f [0 ..< length ?ps]"
    by (simp add: map_result_Inr)
  also have "\<dots> = map (\<lambda>i. Chord_fromPitches
                     (map (\<lambda>d. PitchLike_transposeBy (tonic k)
                                  (Interval_fromSemitones (Num (rotate i ?ps ! d))))
                          [0, 2, 4]))
             [0 ..< length ?ps]"
  proof (intro map_cong refl)
    fix i assume "i \<in> set [0 ..< length ?ps]"
    then have "modePitches_of ?ps i = rotate i ?ps" by (simp add: modePitches_of_rotate)
    moreover have "length (rotate i ?ps) = length ?ps" by simp
    ultimately show "?f i = Chord_fromPitches
                     (map (\<lambda>d. PitchLike_transposeBy (tonic k)
                                  (Interval_fromSemitones (Num (rotate i ?ps ! d))))
                          [0, 2, 4])"
      using assms(2) by (cases "?ps") simp_all
  qed
  finally show ?thesis .
qed

text \<open>
  C2. Diatonic chord sequence: the key of \<open>E Diatonic Major\<close> has seven chords, named
  E Major, F sharp Minor, G sharp Minor, A Major, B Major, C sharp Minor and
  D sharp Dim in this order. The chord of degree \<open>i\<close> is what \<open>Chord.fromPitches\<close> makes of
  the entries 0, 2 and 4 of the pitch classes rotated left by \<open>i\<close> (not reduced to start
  at 0), each added to the tonic of the key.
\<close>

theorem E_major_diatonic_chords:
  "\<exists>k cs. Key_fromString (js ''E Diatonic Major'') = Inr k
     \<and> Key_chords k False = Inr cs
     \<and> length cs = 7
     \<and> map Chord_name cs =
         [Inr (js ''E Major''), Inr (js ''F'' @ [sharp_sign] @ js '' Minor''),
          Inr (js ''G'' @ [sharp_sign] @ js '' Minor''), Inr (js ''A Major''),
          Inr (js ''B Major''), Inr (js ''C'' @ [sharp_sign] @ js '' Minor''),
          Inr (js ''D'' @ [sharp_sign] @ js '' Dim'')]
     \<and> map Inr cs =
         map (\<lambda>i. Chord_fromPitches
                     (map (\<lambda>d. PitchLike_transposeBy (tonic k)
                                  (Interval_fromSemitones (Num (rotate i (key_pitchClasses k) ! d))))
                          [0, 2, 4]))
             [0 ..< 7]"
proof -
  define k where "k = Key_new (js ''Diatonic Major'') [0, 2, 4, 5, 7, 9, 11]
                        (APitchClass (PitchClass (Num 4)))"
  from E_major_chords_eval obtain cs where
    cs: "Key_chords k False = Inr cs"
    and v: "cs = map (\<lambda>(c, r, ab). \<lparr> chordClass = chordClassArray ! c,
                    root = Some (APitchClass (PitchClass (Num r))), inversion = 0,
                    abbr = Some (hd ab), abbrs = ab,
                    intervals = cc_intervals (chordClassArray ! c),
                    pitches = map (\<lambda>i. APitchClass (PitchClass (Num ((r + i) mod 12))))
                                (if c = 0 then [0, 4, 7] else if c = 1 then [0, 3, 7] else [0, 3, 6]) \<rparr>)
          [(0, 4, [js ''E'', js ''E M'']),
           (1, 6, [js ''F'' @ [sharp_sign] @ js '' m'']),
           (1, 8, [js ''G'' @ [sharp_sign] @ js '' m'']),
           (0, 9, [js ''A'', js ''A M'']),
           (0, 11, [js ''B'', js ''B M'']),
           (1, 1, [js ''C'' @ [sharp_sign] @ js '' m'']),
           (3, 3, [js ''D'' @ [sharp_sign, 32, degree_sign], js ''D'' @ [sharp_sign] @ js '' dim''])]"
    unfolding k_def by blast
  have len: "length cs = 7" by (simp add: v)
  have names: "map Chord_name cs =
         [Inr (js ''E Major''), Inr (js ''F'' @ [sharp_sign] @ js '' Minor''),
          Inr (js ''G'' @ [sharp_sign] @ js '' Minor''), Inr (js ''A Major''),
          Inr (js ''B Major''), Inr (js ''C'' @ [sharp_sign] @ js '' Minor''),
          Inr (js ''D'' @ [sharp_sign] @ js '' Dim'')]"
    by (simp add: v Chord_name_def chordClassArray_eval PitchClass_toString_def
        getPitchClassName_def NoteNames_def SharpNoteNames_def js_def)
  have pcs: "key_pitchClasses k = [0, 2, 4, 5, 7, 9, 11]" by (simp add: k_def Key_new_def)
  then have l: "length (key_pitchClasses k) = 7" and "4 < length (key_pitchClasses k)"
    by simp_all
  from Key_chords_triads[OF cs this(2)]
  have tri: "map Inr cs =
         map (\<lambda>i. Chord_fromPitches
                     (map (\<lambda>d. PitchLike_transposeBy (tonic k)
                                  (Interval_fromSemitones (Num (rotate i (key_pitchClasses k) ! d))))
                          [0, 2, 4]))
             [0 ..< 7]" unfolding l .
  from Key_E_Diatonic_Major have key: "Key_fromString (js ''E Diatonic Major'') = Inr k"
    by (simp add: k_def)
  show ?thesis
    by (intro exI[of _ k] exI[of _ cs] conjI) (fact key cs len names tri)+
qed

section \<open>Verification: roman numerals\<close>

lemmas roman_eval =
  chordFromRomanNumeral_def match_roman_def match_after_flat_def match_numeral_def is_i_def
  is_v_def is_acd_def flat_sign_def no_line_terminator_def is_line_terminator_def Let_def
  chordRomanNumerals_def toUpperCase_def toLowerCase_def upper_char_def lower_char_def
  chordType_of_case_def chordType_of_modifiers_def ChordClass_fromString_def ChordClass_at_def
  js_def

lemmas chordMap_Major_units = chordMap_Major[unfolded js_def, simplified]

lemma Key_never_resolves: "Key_fromRomanNumeral k name \<noteq> Inr ch"
  by (auto simp: Key_fromRomanNumeral_def Key_as_roman_scale_def chordFromRomanNumeral_def
      Let_def split: option.splits sum.splits if_splits)

lemma E_major_V:
  "Key_fromRomanNumeral (Key_new (js ''Diatonic Major'') [0, 2, 4, 5, 7, 9, 11]
                           (APitchClass (PitchClass (Num 4)))) (js ''V'')
   = Inl TypeError"
  by (simp add: Key_fromRomanNumeral_def Key_as_roman_scale_def Key_new_def roman_eval
      chordMap_Major_units)

lemma E_major_Iv:
  "Key_fromRomanNumeral (Key_new (js ''Diatonic Major'') [0, 2, 4, 5, 7, 9, 11]
                           (APitchClass (PitchClass (Num 4)))) (js ''Iv'')
   = Inl (MixedCase (js ''Iv''))"
  by (simp add: Key_fromRomanNumeral_def Key_as_roman_scale_def Key_new_def roman_eval)

text \<open>
  C6. Roman-numeral case rule: the claim has an upper-case numeral resolve to a Major
  chord and a lower-case one to a Minor chord on every key, \<open>V\<close> to B Major in the key of
  E Diatonic Major, and a numeral of mixed case fail. The resolver reads the degree's
  pitch from \<open>scale.pitches\<close>, and a key has \<open>notes\<close> but no \<open>pitches\<close>: once the chord
  class Major is found, \<open>V\<close> ends in a \<open>TypeError\<close>, and no token resolves on any key.
  The mixed-case part holds: \<open>Iv\<close> fails with the error that names it, which is raised
  before the read.
\<close>

theorem roman_numeral_on_key_reads_missing_pitches:
  "Key_fromString (js ''E Diatonic Major'')
     = Inr (Key_new (js ''Diatonic Major'') [0, 2, 4, 5, 7, 9, 11] (APitchClass (PitchClass (Num 4))))
   \<and> Key_fromRomanNumeral
        (Key_new (js ''Diatonic Major'') [0, 2, 4, 5, 7, 9, 11] (APitchClass (PitchClass (Num 4))))
        (js ''V'') = Inl TypeError
   \<and> Key_fromRomanNumeral
        (Key_new (js ''Diatonic Major'') [0, 2, 4, 5, 7, 9, 11] (APitchClass (PitchClass (Num 4))))
        (js ''Iv'') = Inl (MixedCase (js ''Iv''))
   \<and> Key_fromRomanNumeral k name \<noteq> Inr ch"
  using Key_E_Diatonic_Major E_major_V E_major_Iv Key_never_resolves by blast








end
